theory Spec2Isabelle
  imports Complex_Main "HOL-Library.Word"
begin

chapter \<open>The model\<close>

section \<open>Hierarchical context keys (\<open>Context\<close>, \<open>ContextKeyService\<close>, \<open>ContextKey\<close>)\<close>

text \<open>
  \<open>ContextKeyValue = string | number | boolean | string[] | undefined\<close>. A lookup that finds
  nothing answers \<open>undefined\<close>, which is also a value that can be stored.
\<close>

datatype jsval = Undefined | VStr string | VNum int | VBool bool | VStrs "string list"

text \<open>
  A \<open>Context\<close> object: its \<open>id\<close>, its own \<open>_value\<close> record (created with
  \<open>Object.create(null)\<close>, so \<open>key in _value\<close> is exactly membership of the own keys) and its
  \<open>_parent\<close>, a reference to another \<open>Context\<close> object or \<open>null\<close>.
\<close>

record Context =
  cid :: nat
  cvalue :: "string \<rightharpoonup> jsval"
  cparent :: "nat option"

text \<open>
  Contexts are shared mutable objects: a child keeps a reference to its parent object, whether
  or not the service still lists the parent. The model therefore keeps all \<open>Context\<close> objects
  in a store \<open>objects\<close> addressed by the number they were constructed with, and the service's
  \<open>_contexts\<close> map sends a context id to the address of its object.
\<close>

record ContextKeyService =
  lastContextId :: nat
  contexts :: "nat \<rightharpoonup> nat"
  objects :: "nat \<rightharpoonup> Context"

datatype ctx_error = UnknownContext nat

text \<open>\<open>new Context(id, parent)\<close>.\<close>

definition new_Context :: "nat \<Rightarrow> nat option \<Rightarrow> Context" where
  "new_Context i p = \<lparr>cid = i, cvalue = Map.empty, cparent = p\<rparr>"

text \<open>The constructor of the service: the root context gets id \<open>++_lastContextId = 1\<close>.\<close>

definition new_ContextKeyService :: ContextKeyService where
  "new_ContextKeyService =
     \<lparr>lastContextId = 1, contexts = [1 \<mapsto> 1], objects = [1 \<mapsto> new_Context 1 None]\<rparr>"

text \<open>\<open>Context.setValue\<close>, \<open>Context.removeValue\<close> and \<open>Context.updateParent\<close> on the object at
  address \<open>a\<close> of the store.\<close>

definition setValue :: "(nat \<rightharpoonup> Context) \<Rightarrow> nat \<Rightarrow> string \<Rightarrow> jsval \<Rightarrow> (nat \<rightharpoonup> Context)" where
  "setValue h a k v =
     (case h a of None \<Rightarrow> h
      | Some c \<Rightarrow> h(a \<mapsto> c\<lparr>cvalue := (cvalue c)(k \<mapsto> v)\<rparr>))"

definition removeValue :: "(nat \<rightharpoonup> Context) \<Rightarrow> nat \<Rightarrow> string \<Rightarrow> (nat \<rightharpoonup> Context)" where
  "removeValue h a k =
     (case h a of None \<Rightarrow> h
      | Some c \<Rightarrow> if k \<in> dom (cvalue c) then h(a \<mapsto> c\<lparr>cvalue := (cvalue c)(k := None)\<rparr>) else h)"

definition updateParent :: "(nat \<rightharpoonup> Context) \<Rightarrow> nat \<Rightarrow> nat \<Rightarrow> (nat \<rightharpoonup> Context)" where
  "updateParent h a p =
     (case h a of None \<Rightarrow> h | Some c \<Rightarrow> h(a \<mapsto> c\<lparr>cparent := Some p\<rparr>))"

text \<open>
  \<open>Context.getValue\<close>: the own entry if the key is present, else the parent's answer, else
  \<open>undefined\<close>. The recursion follows parent references, which \<open>updateParent\<close> can bend into a
  cycle; the result \<open>None\<close> stands for a call that does not return (or an address with no
  object), \<open>Some v\<close> for the returned value.
\<close>

partial_function (option) getValue :: "(nat \<rightharpoonup> Context) \<Rightarrow> nat \<Rightarrow> string \<Rightarrow> jsval option" where
  "getValue h a k =
     (case h a of None \<Rightarrow> None
      | Some c \<Rightarrow>
          (case cvalue c k of Some v \<Rightarrow> Some v
           | None \<Rightarrow>
               (case cparent c of None \<Rightarrow> Some Undefined
                | Some p \<Rightarrow> getValue h p k)))"

text \<open>\<open>ContextKeyService.setContext\<close> and \<open>removeContext\<close>: "always update the root context",
  looked up as \<open>_contexts.get(1)\<close>; nothing happens when that lookup fails.\<close>

definition setContext :: "ContextKeyService \<Rightarrow> string \<Rightarrow> jsval \<Rightarrow> ContextKeyService" where
  "setContext s k v =
     (case contexts s 1 of None \<Rightarrow> s
      | Some r \<Rightarrow> s\<lparr>objects := setValue (objects s) r k v\<rparr>)"

definition removeContext :: "ContextKeyService \<Rightarrow> string \<Rightarrow> ContextKeyService" where
  "removeContext s k =
     (case contexts s 1 of None \<Rightarrow> s
      | Some r \<Rightarrow> s\<lparr>objects := removeValue (objects s) r k\<rparr>)"

definition getContextKeyValue :: "ContextKeyService \<Rightarrow> string \<Rightarrow> jsval option" where
  "getContextKeyValue s k =
     (case contexts s 1 of None \<Rightarrow> Some Undefined
      | Some r \<Rightarrow> getValue (objects s) r k)"

text \<open>\<open>getContextValuesContainer\<close> throws \<open>Unknown context\<close> for an id that is not listed.\<close>

definition getContextValuesContainer :: "ContextKeyService \<Rightarrow> nat \<Rightarrow> ctx_error + nat" where
  "getContextValuesContainer s i =
     (case contexts s i of None \<Rightarrow> Inl (UnknownContext i) | Some a \<Rightarrow> Inr a)"

text \<open>\<open>createChildContext\<close>: the parent must be listed; the child gets the next id.\<close>

definition createChildContext :: "ContextKeyService \<Rightarrow> nat \<Rightarrow> ctx_error + (ContextKeyService \<times> nat)" where
  "createChildContext s parentContextId =
     (case getContextValuesContainer s parentContextId of
        Inl e \<Rightarrow> Inl e
      | Inr parent \<Rightarrow>
          (let i = lastContextId s + 1 in
           Inr (s\<lparr>lastContextId := i,
                   contexts := (contexts s)(i \<mapsto> i),
                   objects := (objects s)(i \<mapsto> new_Context i (Some parent))\<rparr>, i)))"

text \<open>\<open>disposeContext\<close> is \<open>this._contexts.delete(contextId)\<close> and nothing else: it has no
  branch that throws, for any id.\<close>

definition disposeContext :: "ContextKeyService \<Rightarrow> nat \<Rightarrow> ctx_error + ContextKeyService" where
  "disposeContext s contextId = Inr (s\<lparr>contexts := (contexts s)(contextId := None)\<rparr>)"

text \<open>A \<open>ContextKey\<close> holds its key and default value; \<open>undefined\<close> as default means that
  \<open>reset\<close> removes the key. The constructor, hence \<open>createKey\<close>, ends with \<open>reset()\<close>.\<close>

record ContextKey =
  key_name :: string
  defaultValue :: jsval

definition key_set :: "ContextKeyService \<Rightarrow> ContextKey \<Rightarrow> jsval \<Rightarrow> ContextKeyService" where
  "key_set s key v = setContext s (key_name key) v"

definition key_reset :: "ContextKeyService \<Rightarrow> ContextKey \<Rightarrow> ContextKeyService" where
  "key_reset s key =
     (if defaultValue key = Undefined then removeContext s (key_name key)
      else setContext s (key_name key) (defaultValue key))"

definition key_get :: "ContextKeyService \<Rightarrow> ContextKey \<Rightarrow> jsval option" where
  "key_get s key = getContextKeyValue s (key_name key)"

definition createKey :: "ContextKeyService \<Rightarrow> string \<Rightarrow> jsval \<Rightarrow> ContextKeyService \<times> ContextKey" where
  "createKey s k d =
     (let key = \<lparr>key_name = k, defaultValue = d\<rparr> in (key_reset s key, key))"

text \<open>
  \<open>falls_through h k a r\<close>: starting at the object at address \<open>a\<close>, a lookup of \<open>k\<close> walks
  up the parent references to the object at \<open>r\<close> and finds no own entry for \<open>k\<close> on the way.
\<close>

inductive falls_through :: "(nat \<rightharpoonup> Context) \<Rightarrow> string \<Rightarrow> nat \<Rightarrow> nat \<Rightarrow> bool" where
  at_root: "falls_through h k r r"
| via_parent: "h a = Some c \<Longrightarrow> cvalue c k = None \<Longrightarrow> cparent c = Some p \<Longrightarrow>
     falls_through h k p r \<Longrightarrow> falls_through h k a r"

text \<open>
  The service of the repository's hierarchy test: a fresh service, one child
  context of the root, and in the child an own entry for \<open>rootKey\<close> written through
  \<open>getContextValuesContainer(child).setValue('rootKey', 'v2')\<close>.
\<close>

definition shadowing_service :: ContextKeyService where
  "shadowing_service =
     (case createChildContext new_ContextKeyService 1 of
        Inl e \<Rightarrow> new_ContextKeyService
      | Inr (s, i) \<Rightarrow> s\<lparr>objects := setValue (objects s) i ''rootKey'' (VStr ''v2'')\<rparr>)"

section \<open>Multi-factor ranker (\<open>ContextRanker\<close>)\<close>

record RankingFactors =
  tfIdfScore :: real
  fuzzyScore :: real
  proximityScore :: real
  semanticScore :: real
  astRelevance :: real

record 'a ScoredContext =
  item :: 'a
  score :: real
  factors :: RankingFactors

datatype normalization = MinMax | Softmax | NoNormalization

record RankerOptions =
  tfIdfWeight :: real
  fuzzyWeight :: real
  proximityWeight :: real
  semanticWeight :: real
  astWeight :: real
  minScore :: real
  normalizationStrategy :: normalization

text \<open>The defaults of the constructor of \<open>ContextRanker\<close>.\<close>

definition default_RankerOptions :: RankerOptions where
  "default_RankerOptions =
     \<lparr>tfIdfWeight = 4/10, fuzzyWeight = 2/10, proximityWeight = 15/100, semanticWeight = 15/100,
      astWeight = 1/10, minScore = 2/10, normalizationStrategy = MinMax\<rparr>"

definition calculateWeightedScore :: "RankerOptions \<Rightarrow> RankingFactors \<Rightarrow> real" where
  "calculateWeightedScore opts f =
     tfIdfScore f * tfIdfWeight opts + fuzzyScore f * fuzzyWeight opts +
     proximityScore f * proximityWeight opts + semanticScore f * semanticWeight opts +
     astRelevance f * astWeight opts"

text \<open>
  \<open>normalizeScores\<close>: nothing for the empty list; under \<open>minMax\<close> every score becomes 1.0 when
  the largest and the smallest score agree, and \<open>(score - min) / (max - min)\<close> otherwise; under
  \<open>softmax\<close> the exponentials are divided by their sum (accumulated from 0, left to right);
  under \<open>none\<close> the list is returned as it is.
\<close>

definition normalizeScores :: "RankerOptions \<Rightarrow> 'a ScoredContext list \<Rightarrow> 'a ScoredContext list" where
  "normalizeScores opts items =
     (if items = [] then []
      else case normalizationStrategy opts of
        MinMax \<Rightarrow>
          (let mn = Min (set (map score items)); mx = Max (set (map score items)) in
           if mx = mn then map (\<lambda>i. i\<lparr>score := 1\<rparr>) items
           else map (\<lambda>i. i\<lparr>score := (score i - mn) / (mx - mn)\<rparr>) items)
      | Softmax \<Rightarrow>
          (let expScores = map (\<lambda>i. exp (score i)) items;
               sumExp = foldl (+) 0 expScores in
           map (\<lambda>(i, e). i\<lparr>score := e / sumExp\<rparr>) (zip items expScores))
      | NoNormalization \<Rightarrow> items)"

text \<open>
  \<open>rankItems\<close>. The token is read before the loop and before each item; \<open>cancelled\<close> is the
  value of its flag, taken as constant over the call. Each item is scored with \<open>scoreFn\<close>, the
  weighted scores are normalised, items below \<open>minScore\<close> are dropped, and the rest is sorted by
  descending score (\<open>Array.prototype.sort\<close> is stable).
\<close>

definition rankItems ::
  "RankerOptions \<Rightarrow> 'a list \<Rightarrow> string \<Rightarrow> ('a \<Rightarrow> string \<Rightarrow> RankingFactors) \<Rightarrow> bool \<Rightarrow> 'a ScoredContext list" where
  "rankItems opts items query scoreFn cancelled =
     (if cancelled then []
      else
        let scoredItems =
              map (\<lambda>i. let f = scoreFn i query in
                         \<lparr>item = i, score = calculateWeightedScore opts f, factors = f\<rparr>) items;
            normalizedItems = normalizeScores opts scoredItems;
            filteredItems = filter (\<lambda>i. score i \<ge> minScore opts) normalizedItems
        in sort_key (\<lambda>i. - score i) filteredItems)"

text \<open>The factors of an item for which every one of the five factor scores is 0.\<close>

definition zero_factors :: RankingFactors where
  "zero_factors = \<lparr>tfIdfScore = 0, fuzzyScore = 0, proximityScore = 0, semanticScore = 0, astRelevance = 0\<rparr>"

section \<open>Sparse index (\<open>TfIdfCalculator\<close>)\<close>

subsection \<open>Characters and terms\<close>

text \<open>
  Strings are lists of characters; the model reads them as ASCII text. On ASCII, \<open>\p{Letter}\<close>
  is \<open>[A-Za-z]\<close>, \<open>\d\<close> is \<open>[0-9]\<close>, and the word characters that decide \<open>\b\<close> are
  \<open>[A-Za-z0-9_]\<close>.
\<close>

definition is_upper :: "char \<Rightarrow> bool" where
  "is_upper c = (let n = (of_char c :: nat) in 65 \<le> n \<and> n \<le> 90)"

definition is_lower :: "char \<Rightarrow> bool" where
  "is_lower c = (let n = (of_char c :: nat) in 97 \<le> n \<and> n \<le> 122)"

definition is_letter :: "char \<Rightarrow> bool" where
  "is_letter c = (is_upper c \<or> is_lower c)"

definition is_digit :: "char \<Rightarrow> bool" where
  "is_digit c = (let n = (of_char c :: nat) in 48 \<le> n \<and> n \<le> 57)"

definition is_word_char :: "char \<Rightarrow> bool" where
  "is_word_char c = (is_letter c \<or> is_digit c \<or> c = CHR ''_'')"

definition to_lower :: "char \<Rightarrow> char" where
  "to_lower c = (if is_upper c then char_of (of_char c + (32::nat)) else c)"

definition toLowerCase :: "string \<Rightarrow> string" where
  "toLowerCase s = map to_lower s"

text \<open>The maximal runs of word characters of a string, from left to right.\<close>

fun word_runs :: "string \<Rightarrow> string \<Rightarrow> string list" where
  "word_runs cur [] = (if cur = [] then [] else [cur])"
| "word_runs cur (c # cs) =
     (if is_word_char c then word_runs (cur @ [c]) cs
      else if cur = [] then word_runs [] cs
      else cur # word_runs [] cs)"

text \<open>
  The matches of \<open>/\b\p{Letter}[\p{Letter}\d]{2,}\b/gu\<close>. A match starts and ends at a word
  boundary and contains letters and digits only, all of them word characters; so it is a whole
  maximal run of word characters, and a run is a match when it starts with a letter, holds
  letters and digits only (no underscore) and has at least three characters.
\<close>

definition is_term_match :: "string \<Rightarrow> bool" where
  "is_term_match w =
     (case w of [] \<Rightarrow> False
      | c # cs \<Rightarrow> is_letter c \<and> list_all (\<lambda>d. is_letter d \<or> is_digit d) cs \<and> 2 \<le> length cs)"

definition term_matches :: "string \<Rightarrow> string list" where
  "term_matches input = filter is_term_match (word_runs [] input)"

text \<open>
  \<open>word.replace(/([a-z])([A-Z])/g, '$1 $2').split(/\s+/g)\<close> on a word of letters and digits:
  the word is cut between a lower-case letter and an upper-case letter that follows it.
\<close>

fun camelParts :: "string \<Rightarrow> string \<Rightarrow> string list" where
  "camelParts cur [] = [cur]"
| "camelParts cur [c] = [cur @ [c]]"
| "camelParts cur (c # d # cs) =
     (if is_lower c \<and> is_upper d then (cur @ [c]) # camelParts [] (d # cs)
      else camelParts (cur @ [c]) (d # cs))"

text \<open>\<open>/\p{Letter}{3,}/u.test(part)\<close>: three letters in a row somewhere in the part.\<close>

fun has_three_letters :: "string \<Rightarrow> bool" where
  "has_three_letters (a # b # c # cs) =
     ((is_letter a \<and> is_letter b \<and> is_letter c) \<or> has_three_letters (b # c # cs))"
| "has_three_letters cs = False"

text \<open>\<open>splitTerms\<close>: every match in lower case, followed by its camel-case parts (when there is
  more than one) that are longer than two characters and hold three letters in a row.\<close>

definition terms_of_word :: "string \<Rightarrow> string list" where
  "terms_of_word w =
     toLowerCase w #
     (let parts = camelParts [] w in
      if length parts > 1
      then map toLowerCase (filter (\<lambda>p. length p > 2 \<and> has_three_letters p) parts)
      else [])"

definition splitTerms :: "string \<Rightarrow> string list" where
  "splitTerms input = concat (map terms_of_word (term_matches input))"

subsection \<open>JavaScript \<open>Map\<close> as an association list in insertion order\<close>

fun amap_set :: "('k \<times> 'v) list \<Rightarrow> 'k \<Rightarrow> 'v \<Rightarrow> ('k \<times> 'v) list" where
  "amap_set [] k v = [(k, v)]"
| "amap_set ((k', v') # m) k v = (if k' = k then (k, v) # m else (k', v') # amap_set m k v)"

fun amap_delete :: "('k \<times> 'v) list \<Rightarrow> 'k \<Rightarrow> ('k \<times> 'v) list" where
  "amap_delete [] k = []"
| "amap_delete ((k', v') # m) k = (if k' = k then m else (k', v') # amap_delete m k)"

text \<open>\<open>countMapFrom\<close>: how often each value occurs, keyed in order of first occurrence.\<close>

definition countMapFrom :: "'k list \<Rightarrow> ('k \<times> nat) list" where
  "countMapFrom vs =
     fold (\<lambda>v m. amap_set m v ((case map_of m v of None \<Rightarrow> 0 | Some n \<Rightarrow> n) + 1)) vs []"

definition termFrequencies :: "string \<Rightarrow> (string \<times> nat) list" where
  "termFrequencies input = countMapFrom (splitTerms input)"

subsection \<open>The calculator\<close>

record DocumentChunkEntry =
  chunk_text :: string
  tf :: "(string \<times> nat) list"

record TfIdfDocument =
  key :: string
  textChunks :: "string list"

record TfIdfScore =
  tfidf_key :: string
  tfidf_score :: real

record TfIdfCalculator =
  chunkCount :: int
  chunkOccurrences :: "string \<rightharpoonup> int"
  documents :: "(string \<times> DocumentChunkEntry list) list"

definition new_TfIdfCalculator :: TfIdfCalculator where
  "new_TfIdfCalculator = \<lparr>chunkCount = 0, chunkOccurrences = Map.empty, documents = []\<rparr>"

text \<open>One step of the inner loop of \<open>deleteDocument\<close>: the counter of a term goes down by one
  and is removed when it reaches zero; a term without a counter is skipped.\<close>

definition forget_term :: "string \<Rightarrow> (string \<rightharpoonup> int) \<Rightarrow> (string \<rightharpoonup> int)" where
  "forget_term t occ =
     (case occ t of None \<Rightarrow> occ
      | Some currentOccurrences \<Rightarrow>
          (let newOccurrences = currentOccurrences - 1 in
           if newOccurrences \<le> 0 then occ(t := None) else occ(t \<mapsto> newOccurrences)))"

definition deleteDocument :: "TfIdfCalculator \<Rightarrow> string \<Rightarrow> TfIdfCalculator" where
  "deleteDocument c k =
     (case map_of (documents c) k of None \<Rightarrow> c
      | Some chunks \<Rightarrow>
          c\<lparr>documents := amap_delete (documents c) k,
            chunkCount := chunkCount c - int (length chunks),
            chunkOccurrences :=
              fold (\<lambda>chunk occ. fold forget_term (map fst (tf chunk)) occ) chunks (chunkOccurrences c)\<rparr>)"

text \<open>One step of the "update occurrences list" loop of \<open>updateDocuments\<close>.\<close>

definition count_term :: "string \<Rightarrow> (string \<rightharpoonup> int) \<Rightarrow> (string \<rightharpoonup> int)" where
  "count_term t occ = occ(t \<mapsto> (case occ t of None \<Rightarrow> 0 | Some n \<Rightarrow> n) + 1)"

text \<open>The body of the second loop of \<open>updateDocuments\<close> for one document.\<close>

definition insertDocument :: "TfIdfDocument \<Rightarrow> TfIdfCalculator \<Rightarrow> TfIdfCalculator" where
  "insertDocument doc c =
     (let chunks = map (\<lambda>t. \<lparr>chunk_text = t, tf = termFrequencies t\<rparr>) (textChunks doc) in
      c\<lparr>chunkOccurrences :=
           fold (\<lambda>chunk occ. fold count_term (map fst (tf chunk)) occ) chunks (chunkOccurrences c),
        chunkCount := chunkCount c + int (length chunks),
        documents := amap_set (documents c) (key doc) chunks\<rparr>)"

definition updateDocuments :: "TfIdfCalculator \<Rightarrow> TfIdfDocument list \<Rightarrow> TfIdfCalculator" where
  "updateDocuments c docs =
     fold insertDocument docs (fold (\<lambda>doc c'. deleteDocument c' (key doc)) docs c)"

definition computeIdf :: "TfIdfCalculator \<Rightarrow> string \<Rightarrow> real" where
  "computeIdf c t =
     (let occ = (case chunkOccurrences c t of None \<Rightarrow> 0 | Some n \<Rightarrow> n) in
      if occ > 0 then ln (real_of_int (chunkCount c + 1) / real_of_int occ) else 0)"

text \<open>\<open>computeTfidf\<close>: the sparse embedding keeps the terms of positive IDF, in insertion order
  (terms start with a letter, so no key of the record is an array index).\<close>

definition computeTfidf :: "TfIdfCalculator \<Rightarrow> (string \<times> nat) list \<Rightarrow> (string \<times> real) list" where
  "computeTfidf c termFreqs =
     map (\<lambda>(w, n). (w, real n * computeIdf c w)) (filter (\<lambda>(w, n). computeIdf c w > 0) termFreqs)"

definition computeEmbedding :: "TfIdfCalculator \<Rightarrow> string \<Rightarrow> (string \<times> real) list" where
  "computeEmbedding c input = computeTfidf c (termFrequencies input)"

text \<open>\<open>computeSimilarityScore\<close>: the dot product over the query's terms that occur in the
  chunk. The \<open>idfCache\<close> only memoises \<open>computeIdf\<close>, whose value does not change while
  scoring, so the model calls \<open>computeIdf\<close> directly.\<close>

definition computeSimilarityScore ::
  "TfIdfCalculator \<Rightarrow> DocumentChunkEntry \<Rightarrow> (string \<times> real) list \<Rightarrow> real" where
  "computeSimilarityScore c chunk queryEmbedding =
     fold (\<lambda>(t, termTfidf) sum.
             (case map_of (tf chunk) t of None \<Rightarrow> sum
              | Some chunkTf \<Rightarrow>
                  if chunkTf = 0 then sum
                  else sum + (real chunkTf * computeIdf c t) * termTfidf))
          queryEmbedding 0"

text \<open>The loop of \<open>calculateScores\<close> over the documents: the token is read before each
  document (\<open>cancelled\<close> is its flag); every chunk with a positive score pushes an entry.\<close>

fun score_documents ::
  "TfIdfCalculator \<Rightarrow> (string \<times> real) list \<Rightarrow> bool \<Rightarrow> (string \<times> DocumentChunkEntry list) list \<Rightarrow>
   TfIdfScore list \<Rightarrow> TfIdfScore list" where
  "score_documents c embedding cancelled [] scores = scores"
| "score_documents c embedding cancelled ((k, chunks) # rest) scores =
     (if cancelled then []
      else score_documents c embedding cancelled rest
             (scores @
              map (\<lambda>chunk. \<lparr>tfidf_key = k, tfidf_score = computeSimilarityScore c chunk embedding\<rparr>)
                (filter (\<lambda>chunk. computeSimilarityScore c chunk embedding > 0) chunks)))"

definition calculateScores :: "TfIdfCalculator \<Rightarrow> string \<Rightarrow> bool \<Rightarrow> TfIdfScore list" where
  "calculateScores c query cancelled =
     score_documents c (computeEmbedding c query) cancelled (documents c) []"

subsection \<open>Two small indexes\<close>

text \<open>One document \<open>doc\<close> with the two chunks \<open>cat\<close> and \<open>cat cat\<close>.\<close>

definition two_chunk_index :: TfIdfCalculator where
  "two_chunk_index =
     updateDocuments new_TfIdfCalculator [\<lparr>key = ''doc'', textChunks = [''cat'', ''cat cat'']\<rparr>]"

text \<open>One call of \<open>updateDocuments\<close> on an empty calculator with two documents under the
  same key \<open>a\<close>.\<close>

definition duplicate_key_index :: TfIdfCalculator where
  "duplicate_key_index =
     updateDocuments new_TfIdfCalculator
       [\<lparr>key = ''a'', textChunks = [''alpha'']\<rparr>, \<lparr>key = ''a'', textChunks = [''beta'']\<rparr>]"

subsection \<open>Consistency of the counters\<close>

text \<open>All chunks held by the calculator, and the number of chunks among \<open>cs\<close> that contain a
  term.\<close>

definition stored_chunks :: "TfIdfCalculator \<Rightarrow> DocumentChunkEntry list" where
  "stored_chunks c = concat (map snd (documents c))"

definition term_count :: "DocumentChunkEntry list \<Rightarrow> string \<Rightarrow> nat" where
  "term_count cs t = length (filter (\<lambda>ch. t \<in> fst ` set (tf ch)) cs)"

text \<open>An occurrence counter for a count: absent for 0.\<close>

definition occ_of :: "nat \<Rightarrow> int option" where
  "occ_of n = (if n = 0 then None else Some (int n))"

text \<open>
  The calculator is consistent when its keys are distinct, every stored chunk lists each of its
  terms once, the chunk count is the number of stored chunks, and the counter of every term is
  the number of stored chunks that contain it (absent for 0).
\<close>

definition consistent :: "TfIdfCalculator \<Rightarrow> bool" where
  "consistent c \<longleftrightarrow>
     distinct (map fst (documents c)) \<and>
     list_all (\<lambda>ch. distinct (map fst (tf ch))) (stored_chunks c) \<and>
     chunkCount c = int (length (stored_chunks c)) \<and>
     chunkOccurrences c = (\<lambda>t. occ_of (term_count (stored_chunks c) t))"

section \<open>Chunking strategies\<close>

subsection \<open>JavaScript string helpers\<close>

text \<open>\<open>\s\<close> on ASCII text: tab, line feed, vertical tab, form feed, carriage return, space.\<close>

definition is_space :: "char \<Rightarrow> bool" where
  "is_space c = (let n = (of_char c :: nat) in (9 \<le> n \<and> n \<le> 13) \<or> n = 32)"

definition newline :: char where
  "newline = CHR 0x0A"

text \<open>\<open>s.substring(a, b)\<close>: both indices are clamped to \<open>[0, length]\<close> and swapped when
  \<open>a > b\<close>.\<close>

definition substring :: "string \<Rightarrow> int \<Rightarrow> int \<Rightarrow> string" where
  "substring s a b =
     (let n = int (length s);
          a' = max 0 (min a n);
          b' = max 0 (min b n);
          lo = min a' b';
          hi = max a' b'
      in take (nat (hi - lo)) (drop (nat lo) s))"

text \<open>\<open>s.slice(0, e)\<close>: a negative end counts from the end of the string.\<close>

definition slice0 :: "'a list \<Rightarrow> int \<Rightarrow> 'a list" where
  "slice0 s e = (if e < 0 then take (nat (int (length s) + e)) s else take (nat e) s)"

text \<open>\<open>s.lastIndexOf(p)\<close> for a non-empty \<open>p\<close>: the last index at which \<open>p\<close> occurs, or \<open>-1\<close>.\<close>

definition lastIndexOf :: "string \<Rightarrow> string \<Rightarrow> int" where
  "lastIndexOf s p =
     (case filter (\<lambda>i. take (length p) (drop i s) = p) (rev [0..<Suc (length s)]) of
        [] \<Rightarrow> -1
      | i # _ \<Rightarrow> int i)"

text \<open>Decimal and hexadecimal numerals, as \<open>String(n)\<close> and \<open>n.toString(16)\<close> print them.\<close>

definition digit_char :: "nat \<Rightarrow> char" where
  "digit_char d = ''0123456789abcdef'' ! d"

fun nat_to_string :: "nat \<Rightarrow> nat \<Rightarrow> string" where
  "nat_to_string base n =
     (if base < 2 \<or> n < base then [digit_char n]
      else nat_to_string base (n div base) @ [digit_char (n mod base)])"

definition int_to_string :: "int \<Rightarrow> string" where
  "int_to_string i = (if i < 0 then CHR ''-'' # nat_to_string 10 (nat (- i)) else nat_to_string 10 (nat i))"

subsection \<open>Options, chunks and the helpers of the base class\<close>

text \<open>The options after the constructor's merge with the defaults; \<open>minChunkSize\<close> and
  \<open>overlap\<close> are optional fields.\<close>

record ChunkingOptions =
  maxChunkSize :: int
  minChunkSize :: "int option"
  overlap :: "int option"

definition default_ChunkingOptions :: ChunkingOptions where
  "default_ChunkingOptions = \<lparr>maxChunkSize = 1000, minChunkSize = Some 100, overlap = Some 0\<rparr>"

type_synonym metadata = "(string \<times> jsval) list"

record Chunk =
  chunk_id :: string
  chunk_content :: string
  chunk_metadata :: metadata

text \<open>The object literal \<open>{ ...base, ...extra }\<close>: the entries of \<open>extra\<close> overwrite those of
  \<open>base\<close> and new keys are appended.\<close>

definition spread :: "metadata \<Rightarrow> metadata \<Rightarrow> metadata" where
  "spread base extra = fold (\<lambda>(k, v) m. amap_set m k v) extra base"

text \<open>A metadata entry read as a string; the model reads the entries \<open>type\<close> and \<open>fileName\<close> for
  string values and takes any other value as absent.\<close>

definition meta_string :: "metadata \<Rightarrow> string \<Rightarrow> string" where
  "meta_string md k = (case map_of md k of Some (VStr s) \<Rightarrow> s | _ \<Rightarrow> [])"

text \<open>The content hash of \<open>generateChunkId\<close>: \<open>hash = ((hash << 5) - hash) + char\<close> followed by
  \<open>hash & hash\<close>, which is arithmetic modulo \<open>2^32\<close>, read as a signed number.\<close>

definition content_hash :: "string \<Rightarrow> 32 word" where
  "content_hash content = fold (\<lambda>c h. (push_bit 5 h - h) + word_of_nat (of_char c)) content 0"

definition generateChunkId :: "string \<Rightarrow> nat \<Rightarrow> metadata \<Rightarrow> string" where
  "generateChunkId content index md =
     (let prefix = (if meta_string md ''type'' = [] then ''chunk'' else meta_string md ''type'');
          fileName = meta_string md ''fileName'';
          fileInfo = (if fileName = [] then []
                      else CHR ''-'' # map (\<lambda>c. if is_letter c \<or> is_digit c then c else CHR ''_'') fileName)
      in prefix @ fileInfo @ ''-'' @ nat_to_string 10 index @ ''-'' @
         nat_to_string 16 (nat \<bar>sint (content_hash content)\<bar>))"

text \<open>\<open>getLineNumberAtOffset\<close>: the number of line feeds in \<open>content.slice(0, offset)\<close>.\<close>

definition getLineNumberAtOffset :: "string \<Rightarrow> int \<Rightarrow> int" where
  "getLineNumberAtOffset content offset = int (length (filter (\<lambda>c. c = newline) (slice0 content offset)))"

definition whole_chunk :: "string \<Rightarrow> metadata \<Rightarrow> Chunk" where
  "whole_chunk content md =
     \<lparr>chunk_id = generateChunkId content 0 md, chunk_content = content,
      chunk_metadata =
        spread [(''startLine'', VNum 0),
                (''endLine'', VNum (getLineNumberAtOffset content (int (length content))))] md\<rparr>"

subsection \<open>Fixed-size chunking\<close>

definition breakpoints :: "string list" where
  "breakpoints = [[newline, newline], [newline], ''. '', '', '', '' '']"

text \<open>The search for a split point: the first breakpoint whose last occurrence in the search
  window lies beyond \<open>currentPosition + minChunkSize\<close> moves the end behind it.\<close>

fun find_break :: "string \<Rightarrow> int \<Rightarrow> int \<Rightarrow> int \<Rightarrow> string list \<Rightarrow> int" where
  "find_break content currentPosition minChunk endPosition [] = endPosition"
| "find_break content currentPosition minChunk endPosition (breakpoint # rest) =
     (let searchStart = max (endPosition - 100) (currentPosition + minChunk);
          searchEnd = min (endPosition + 100) (int (length content));
          searchText = substring content searchStart searchEnd;
          breakpointIndex = lastIndexOf searchText breakpoint
      in if breakpointIndex \<noteq> -1 \<and> searchStart + breakpointIndex > currentPosition + minChunk
         then searchStart + breakpointIndex + int (length breakpoint)
         else find_break content currentPosition minChunk endPosition rest)"

text \<open>\<open>this.options.minChunkSize || 100\<close> and \<open>this.options.overlap || 0\<close>.\<close>

definition minChunk_of :: "ChunkingOptions \<Rightarrow> int" where
  "minChunk_of opts = (case minChunkSize opts of None \<Rightarrow> 100 | Some m \<Rightarrow> if m = 0 then 100 else m)"

definition overlap_of :: "ChunkingOptions \<Rightarrow> int" where
  "overlap_of opts = (case overlap opts of None \<Rightarrow> 0 | Some v \<Rightarrow> v)"

text \<open>The end position of the chunk that starts at \<open>currentPosition\<close>.\<close>

definition chunk_end :: "ChunkingOptions \<Rightarrow> string \<Rightarrow> int \<Rightarrow> int" where
  "chunk_end opts content currentPosition =
     (let minChunk = minChunk_of opts;
          endPosition = min (currentPosition + maxChunkSize opts) (int (length content))
      in if endPosition < int (length content)
         then find_break content currentPosition minChunk endPosition breakpoints
         else endPosition)"

text \<open>
  The \<open>while (currentPosition < content.length)\<close> loop of \<open>FixedSizeChunkingStrategy.chunk\<close>.
  The result \<open>None\<close> stands for a loop that does not end.
\<close>

partial_function (option) fixed_loop ::
  "ChunkingOptions \<Rightarrow> string \<Rightarrow> metadata \<Rightarrow> bool \<Rightarrow> int \<Rightarrow> nat \<Rightarrow> Chunk list \<Rightarrow> Chunk list option" where
  "fixed_loop opts content md cancelled currentPosition chunkIndex chunks =
     (if currentPosition < int (length content)
      then if cancelled then Some chunks
           else
             (let endPosition = chunk_end opts content currentPosition;
                  chunkContent = substring content currentPosition endPosition;
                  chunk = \<lparr>chunk_id = generateChunkId chunkContent chunkIndex md,
                           chunk_content = chunkContent,
                           chunk_metadata =
                             spread [(''startLine'', VNum (getLineNumberAtOffset content currentPosition)),
                                     (''endLine'', VNum (getLineNumberAtOffset content endPosition))] md\<rparr>
              in fixed_loop opts content md cancelled (endPosition - overlap_of opts)
                   (chunkIndex + 1) (chunks @ [chunk]))
      else Some chunks)"

definition FixedSize_chunk :: "ChunkingOptions \<Rightarrow> string \<Rightarrow> metadata \<Rightarrow> bool \<Rightarrow> Chunk list option" where
  "FixedSize_chunk opts content md cancelled =
     (if cancelled then Some []
      else if int (length content) \<le> maxChunkSize opts then Some [whole_chunk content md]
      else fixed_loop opts content md cancelled 0 0 [])"

section \<open>Prompt builder (\<open>PromptBuilder\<close>)\<close>

subsection \<open>More string helpers\<close>

definition backtick :: char where
  "backtick = CHR 0x60"

definition quote :: char where
  "quote = CHR 0x27"

text \<open>\<open>x || ''\<close> and \<open>x || d\<close> for an optional string: the empty string is falsy.\<close>

definition or_default :: "string option \<Rightarrow> string \<Rightarrow> string" where
  "or_default x d = (case x of None \<Rightarrow> d | Some s \<Rightarrow> if s = [] then d else s)"

text \<open>\<open>s.indexOf(p)\<close> as an option.\<close>

definition indexOf :: "string \<Rightarrow> string \<Rightarrow> nat option" where
  "indexOf s p =
     (case filter (\<lambda>i. take (length p) (drop i s) = p) [0..<Suc (length s)] of
        [] \<Rightarrow> None
      | i # _ \<Rightarrow> Some i)"

text \<open>
  The replacement text of \<open>String.prototype.replace\<close> for a string pattern: \<open>$$\<close> is a dollar sign,
  \<open>$&\<close> the matched text, \<open>$`\<close> the text before the match and \<open>$'\<close> the text after it; a
  string pattern has no capture groups, so every other \<open>$\<close> stays as it is.
\<close>

fun getSubstitution :: "string \<Rightarrow> string \<Rightarrow> string \<Rightarrow> string \<Rightarrow> string" where
  "getSubstitution matched before after (c # d # r) =
     (if c = CHR ''$'' \<and> d = CHR ''$'' then CHR ''$'' # getSubstitution matched before after r
      else if c = CHR ''$'' \<and> d = CHR ''&'' then matched @ getSubstitution matched before after r
      else if c = CHR ''$'' \<and> d = backtick then before @ getSubstitution matched before after r
      else if c = CHR ''$'' \<and> d = quote then after @ getSubstitution matched before after r
      else c # getSubstitution matched before after (d # r))"
| "getSubstitution matched before after r = r"

text \<open>\<open>s.replace(pattern, replacement)\<close> with a string pattern: the first occurrence only.\<close>

definition replace :: "string \<Rightarrow> string \<Rightarrow> string \<Rightarrow> string" where
  "replace s pattern replacement =
     (case indexOf s pattern of
        None \<Rightarrow> s
      | Some i \<Rightarrow>
          (let before = take i s; after = drop (i + length pattern) s
           in before @ getSubstitution pattern before after replacement @ after))"

text \<open>\<open>parts.join(sep)\<close>.\<close>

fun join :: "string list \<Rightarrow> string \<Rightarrow> string" where
  "join [] sep = []"
| "join [p] sep = p"
| "join (p # q # ps) sep = p @ sep @ join (q # ps) sep"

text \<open>The number of maximal runs of white space in a text; \<open>text.split(/\s+/)\<close> has one piece
  more than that.\<close>

fun space_runs :: "bool \<Rightarrow> string \<Rightarrow> nat" where
  "space_runs in_run [] = 0"
| "space_runs in_run (c # cs) =
     (if is_space c then (if in_run then 0 else 1) + space_runs True cs
      else space_runs False cs)"

text \<open>\<open>estimateTokens\<close>: \<open>Math.ceil(text.split(/\s+/).length * 1.3)\<close>, computed over the reals.\<close>

definition estimateTokens :: "string \<Rightarrow> int" where
  "estimateTokens t = \<lceil>real (space_runs False t + 1) * (13 / 10)\<rceil>"

subsection \<open>Templates, snippets and results\<close>

record PromptTemplate =
  template_systemMessage :: "string option"
  userMessageTemplate :: string
  contextHeader :: "string option"
  contextFooter :: "string option"
  contextSeparator :: string

definition defaultTemplate :: PromptTemplate where
  "defaultTemplate =
     \<lparr>template_systemMessage =
        Some ''You are a helpful coding assistant with expertise in software development.'',
      userMessageTemplate = ''{{query}}'',
      contextHeader = Some (''Here is some relevant code context:'' @ [newline]),
      contextFooter = Some (newline # ''Please answer based on the above context.''),
      contextSeparator = newline # ''---'' @ [newline]\<rparr>"

datatype SnippetType = Exact | Nearby | Parent | Sibling | Related

text \<open>An \<open>ExtendedCodeSnippet\<close>; the two optional entries of its \<open>metadata\<close> that the builder
  reads are fields of the record.\<close>

record ExtendedCodeSnippet =
  snippet_content :: string
  startLine :: int
  endLine :: int
  relevance :: real
  snippet_type :: SnippetType
  snippet_fileName :: "string option"
  snippet_language :: "string option"

record ModelCapabilities =
  contextWindow :: int
  supportsSystemMessage :: bool
  maxOutputTokens :: "int option"

record PromptContext =
  query :: string
  codeSnippets :: "ExtendedCodeSnippet list"
  systemInfo :: "(string \<times> string) list option"
  modelCapabilities :: "ModelCapabilities option"

record PromptResult =
  systemMessage :: "string option"
  userMessage :: string
  includedSnippets :: nat
  totalSnippets :: nat
  estimatedTokens :: int

subsection \<open>Building the prompt\<close>

definition formatSnippet :: "ExtendedCodeSnippet \<Rightarrow> string" where
  "formatSnippet snippet =
     (let fileName = or_default (snippet_fileName snippet) ''unknown'';
          language = or_default (snippet_language snippet) []
      in ''File: '' @ fileName @ '' (Lines '' @ int_to_string (startLine snippet + 1) @ ''-'' @
         int_to_string (endLine snippet + 1) @ '')'' @ [newline] @
         [backtick, backtick, backtick] @ language @ [newline] @
         snippet_content snippet @ [newline] @
         [backtick, backtick, backtick])"

text \<open>\<open>formatSystemMessage\<close>: the empty string without a template, the template itself without
  system information, and otherwise the template with the first \<open>{{key}}\<close> of every entry
  replaced by its value.\<close>

definition formatSystemMessage :: "string option \<Rightarrow> (string \<times> string) list option \<Rightarrow> string" where
  "formatSystemMessage template info =
     (case template of
        None \<Rightarrow> []
      | Some t \<Rightarrow>
          if t = [] then []
          else (case info of
                  None \<Rightarrow> t
                | Some entries \<Rightarrow>
                    fold (\<lambda>(k, v) result. replace result (''{{'' @ k @ ''}}'') v) entries t))"

text \<open>The loop of \<open>calculateSnippetsToInclude\<close>: snippets are taken in order while the running
  token count stays within the budget; the first snippet that does not fit ends the loop.\<close>

fun take_snippets :: "PromptTemplate \<Rightarrow> int \<Rightarrow> int \<Rightarrow> ExtendedCodeSnippet list \<Rightarrow> ExtendedCodeSnippet list" where
  "take_snippets template availableTokens tokenCount [] = []"
| "take_snippets template availableTokens tokenCount (snippet # rest) =
     (let snippetTokens = estimateTokens (formatSnippet snippet @ contextSeparator template)
      in if tokenCount + snippetTokens \<le> availableTokens
         then snippet # take_snippets template availableTokens (tokenCount + snippetTokens) rest
         else [])"

definition calculateSnippetsToInclude ::
  "PromptTemplate \<Rightarrow> ExtendedCodeSnippet list \<Rightarrow> int \<Rightarrow> int \<Rightarrow> ExtendedCodeSnippet list" where
  "calculateSnippetsToInclude template snippets maxContextTokens maxOutputTokens' =
     (let reservedTokens = 500 + maxOutputTokens';
          availableTokens = maxContextTokens - reservedTokens
      in take_snippets template availableTokens 0 snippets)"

text \<open>\<open>PromptBuilder.buildPrompt\<close>, statement by statement.\<close>

definition PromptBuilder_buildPrompt :: "PromptTemplate \<Rightarrow> PromptContext \<Rightarrow> PromptResult" where
  "PromptBuilder_buildPrompt template context' =
     (let sortedSnippets = sort_key (\<lambda>s. - relevance s) (codeSnippets context');
          window = (case modelCapabilities context' of None \<Rightarrow> 4000
                    | Some m \<Rightarrow> if contextWindow m = 0 then 4000 else contextWindow m);
          maxOut = (case modelCapabilities context' of None \<Rightarrow> 1000
                    | Some m \<Rightarrow> (case maxOutputTokens m of None \<Rightarrow> 1000
                                 | Some n \<Rightarrow> if n = 0 then 1000 else n));
          supports = (case modelCapabilities context' of None \<Rightarrow> False
                      | Some m \<Rightarrow> supportsSystemMessage m);
          snippetsToInclude = calculateSnippetsToInclude template sortedSnippets window maxOut;
          contextString =
            (if length snippetsToInclude > 0
             then or_default (contextHeader template) [] @
                  join (map formatSnippet snippetsToInclude) (contextSeparator template) @
                  or_default (contextFooter template) []
             else []);
          userMessage' =
            replace (replace (userMessageTemplate template) ''{{query}}'' (query context'))
              ''{{context}}'' contextString;
          systemMessage' =
            (if supports
             then Some (formatSystemMessage (template_systemMessage template) (systemInfo context'))
             else None);
          finalUserMessage =
            (if supports then userMessage'
             else or_default systemMessage' [] @ [newline, newline] @ userMessage');
          estimatedTokens' = estimateTokens (or_default systemMessage' [] @ finalUserMessage)
      in \<lparr>systemMessage = systemMessage',
          userMessage = finalUserMessage,
          includedSnippets = length snippetsToInclude,
          totalSnippets = length sortedSnippets,
          estimatedTokens = estimatedTokens'\<rparr>)"

text \<open>A prompt context for a model without a system role: the query \<open>q\<close>, no snippets.\<close>

definition no_system_context :: PromptContext where
  "no_system_context =
     \<lparr>query = ''q'', codeSnippets = [], systemInfo = None,
      modelCapabilities =
        Some \<lparr>contextWindow = 4000, supportsSystemMessage = False, maxOutputTokens = None\<rparr>\<rparr>"

section \<open>Semantic chunking\<close>

text \<open>
  \<open>content.split(/(?<=\.|\?|\!|\n)\s+/g)\<close>: a delimiter starts at a white-space character that
  follows a full stop, a question mark, an exclamation mark or a line feed, and runs to the end
  of the white space. \<open>skipping\<close> says that the scan is inside a delimiter, \<open>prev\<close> is the
  character before the current one, \<open>cur\<close> the piece collected so far.
\<close>

definition is_terminator :: "char option \<Rightarrow> bool" where
  "is_terminator prev =
     (case prev of None \<Rightarrow> False
      | Some c \<Rightarrow> c = CHR ''.'' \<or> c = CHR ''?'' \<or> c = CHR ''!'' \<or> c = newline)"

fun split_units :: "bool \<Rightarrow> char option \<Rightarrow> string \<Rightarrow> string \<Rightarrow> string list" where
  "split_units skipping prev cur [] = [cur]"
| "split_units skipping prev cur (c # cs) =
     (if skipping \<and> is_space c then split_units True (Some c) cur cs
      else if is_space c \<and> is_terminator prev then cur # split_units True (Some c) [] cs
      else split_units False (Some c) (cur @ [c]) cs)"

text \<open>The semantic units: the pieces with a character that is not white space
  (\<open>unit.trim().length > 0\<close>).\<close>

definition semanticUnits :: "string \<Rightarrow> string list" where
  "semanticUnits content =
     filter (\<lambda>unit. list_ex (\<lambda>c. \<not> is_space c) unit) (split_units False None [] content)"

record semantic_state =
  currentChunk :: string
  currentStartLine :: int
  currentPosition :: int
  chunkIndex :: nat
  pushedChunks :: "Chunk list"

definition semantic_chunk_of :: "string \<Rightarrow> metadata \<Rightarrow> semantic_state \<Rightarrow> int \<Rightarrow> Chunk" where
  "semantic_chunk_of content md st endOffset =
     \<lparr>chunk_id = generateChunkId (currentChunk st) (chunkIndex st) md,
      chunk_content = currentChunk st,
      chunk_metadata =
        spread [(''startLine'', VNum (currentStartLine st)),
                (''endLine'', VNum (getLineNumberAtOffset content endOffset))] md\<rparr>"

text \<open>One iteration of the loop over the units (the token is not cancelled).\<close>

definition semantic_step :: "ChunkingOptions \<Rightarrow> string \<Rightarrow> metadata \<Rightarrow> string \<Rightarrow> semantic_state \<Rightarrow> semantic_state" where
  "semantic_step opts content md unit st =
     (let st1 =
            (if length (currentChunk st) > 0 \<and>
                int (length (currentChunk st) + length unit) > maxChunkSize opts
             then st\<lparr>pushedChunks := pushedChunks st @ [semantic_chunk_of content md st (currentPosition st)],
                     chunkIndex := chunkIndex st + 1,
                     currentChunk := [],
                     currentStartLine := getLineNumberAtOffset content (currentPosition st)\<rparr>
             else st);
          st2 = (if length (currentChunk st1) > 0
                 then st1\<lparr>currentChunk := currentChunk st1 @ '' ''\<rparr> else st1)
      in st2\<lparr>currentChunk := currentChunk st2 @ unit,
              currentPosition := currentPosition st2 + int (length unit) + 1\<rparr>)"

text \<open>\<open>SemanticChunkingStrategy.chunk\<close> with the default delimiter. Inside the loop a cancelled
  token returns the chunks pushed so far.\<close>

definition Semantic_chunk :: "ChunkingOptions \<Rightarrow> string \<Rightarrow> metadata \<Rightarrow> bool \<Rightarrow> Chunk list" where
  "Semantic_chunk opts content md cancelled =
     (if cancelled then []
      else
        let units = semanticUnits content in
        if units = [] then []
        else
          let st = fold (semantic_step opts content md) units
                     \<lparr>currentChunk = [], currentStartLine = 0, currentPosition = 0,
                      chunkIndex = 0, pushedChunks = []\<rparr>
          in if length (currentChunk st) > 0
             then pushedChunks st @ [semantic_chunk_of content md st (int (length content))]
             else pushedChunks st)"

section \<open>Embedding providers and vector search\<close>

record EmbeddingProvider =
  computeEmbeddings :: "string list \<Rightarrow> real list list"
  dimensions :: nat
  modelName :: string

datatype index_error = NoSuchProvider string | DimensionMismatch | TypeError

text \<open>\<open>EmbeddingsService.computeEmbeddings\<close>: the empty array for a cancelled token, an error for
  an unknown provider id, and the provider's answer otherwise.\<close>

definition service_computeEmbeddings ::
  "(string \<rightharpoonup> EmbeddingProvider) \<Rightarrow> string \<Rightarrow> string list \<Rightarrow> bool \<Rightarrow> index_error + real list list" where
  "service_computeEmbeddings providers providerId texts cancelled =
     (if cancelled then Inr []
      else case providers providerId of
             None \<Rightarrow> Inl (NoSuchProvider providerId)
           | Some provider \<Rightarrow> Inr (computeEmbeddings provider texts))"

text \<open>\<open>const [embedding] = ...\<close>: the first element, or \<open>undefined\<close> for the empty array.\<close>

definition first_embedding :: "real list list \<Rightarrow> real list option" where
  "first_embedding es = (case es of [] \<Rightarrow> None | e # _ \<Rightarrow> Some e)"

text \<open>\<open>cosineSimilarity\<close> (the same code in the search engine and in the storage adapter),
  over the reals. It throws on vectors of different length and needs both vectors to exist.\<close>

definition cosineSimilarity :: "real list option \<Rightarrow> real list option \<Rightarrow> index_error + real" where
  "cosineSimilarity a' b' =
     (case (a', b') of
        (Some a, Some b) \<Rightarrow>
          if length a \<noteq> length b then Inl DimensionMismatch
          else
            (let dotProduct = sum_list (map2 (*) a b);
                 normA = sum_list (map2 (*) a a);
                 normB = sum_list (map2 (*) b b)
             in if normA = 0 \<or> normB = 0 then Inr 0
                else Inr (dotProduct / (sqrt normA * sqrt normB)))
      | _ \<Rightarrow> Inl TypeError)"

subsection \<open>\<open>SemanticSearchEngine\<close>\<close>

record SearchDocument =
  doc_text :: string
  doc_embedding :: "real list option"
  doc_metadata :: "metadata option"

record SemanticSearchOptions =
  topK :: "int option"
  threshold :: "real option"
  includeSimilarity :: "bool option"
  includeContent :: "bool option"
  includeMetadata :: "bool option"

text \<open>A call without options: \<open>options = {}\<close>.\<close>

definition no_options :: SemanticSearchOptions where
  "no_options = \<lparr>topK = None, threshold = None, includeSimilarity = None,
                  includeContent = None, includeMetadata = None\<rparr>"

record SemanticSearchResult =
  result_id :: string
  result_score :: real
  result_content :: string
  result_metadata :: "metadata option"

text \<open>\<open>addDocument\<close>, the only way into the engine's own \<open>documents\<close> map besides
  \<open>addDocuments\<close>.\<close>

definition addDocument ::
  "(string \<rightharpoonup> EmbeddingProvider) \<Rightarrow> (string \<times> SearchDocument) list \<Rightarrow> string \<Rightarrow> string \<Rightarrow> string \<Rightarrow>
   metadata option \<Rightarrow> bool \<Rightarrow> index_error + (string \<times> SearchDocument) list" where
  "addDocument providers docs i t providerId md cancelled =
     (if cancelled then Inr docs
      else case service_computeEmbeddings providers providerId [t] cancelled of
             Inl e \<Rightarrow> Inl e
           | Inr es \<Rightarrow>
               Inr (amap_set docs i \<lparr>doc_text = t, doc_embedding = first_embedding es, doc_metadata = md\<rparr>))"

text \<open>The \<open>map\<close> over the documents: the first similarity that throws ends the call.\<close>

fun score_documents_against ::
  "real list option \<Rightarrow> bool \<Rightarrow> bool \<Rightarrow> (string \<times> SearchDocument) list \<Rightarrow>
   index_error + SemanticSearchResult list" where
  "score_documents_against q inclContent inclMetadata [] = Inr []"
| "score_documents_against q inclContent inclMetadata ((i, doc) # rest) =
     (case cosineSimilarity q (doc_embedding doc) of
        Inl e \<Rightarrow> Inl e
      | Inr s \<Rightarrow>
          (case score_documents_against q inclContent inclMetadata rest of
             Inl e \<Rightarrow> Inl e
           | Inr rs \<Rightarrow>
               Inr (\<lparr>result_id = i, result_score = s,
                      result_content = (if inclContent then doc_text doc else []),
                      result_metadata = (if inclMetadata then doc_metadata doc else None)\<rparr> # rs)))"

text \<open>\<open>SemanticSearchEngine.search\<close>. The defaults are \<open>topK ?? 5\<close> and \<open>threshold ?? 0.0\<close>.\<close>

definition engine_search ::
  "(string \<rightharpoonup> EmbeddingProvider) \<Rightarrow> (string \<times> SearchDocument) list \<Rightarrow> string \<Rightarrow> string \<Rightarrow>
   SemanticSearchOptions \<Rightarrow> bool \<Rightarrow> index_error + SemanticSearchResult list" where
  "engine_search providers docs query' providerId options cancelled =
     (if cancelled then Inr []
      else
        let topK' = (case topK options of None \<Rightarrow> 5 | Some k \<Rightarrow> k);
            threshold' = (case threshold options of None \<Rightarrow> 0 | Some t \<Rightarrow> t);
            includeSimilarity' = (case includeSimilarity options of None \<Rightarrow> True | Some b \<Rightarrow> b);
            includeContent' = (case includeContent options of None \<Rightarrow> True | Some b \<Rightarrow> b);
            includeMetadata' = (case includeMetadata options of None \<Rightarrow> True | Some b \<Rightarrow> b)
        in case service_computeEmbeddings providers providerId [query'] cancelled of
             Inl e \<Rightarrow> Inl e
           | Inr es \<Rightarrow>
               (case score_documents_against (first_embedding es) includeContent' includeMetadata' docs of
                  Inl e \<Rightarrow> Inl e
                | Inr scored \<Rightarrow>
                    (let results =
                           slice0 (sort_key (\<lambda>r. - result_score r)
                                     (filter (\<lambda>r. result_score r \<ge> threshold') scored)) topK'
                     in Inr (if includeSimilarity' then results
                             else map (\<lambda>r. r\<lparr>result_score := 0\<rparr>) results))))"

subsection \<open>\<open>InMemoryStorageAdapter\<close>\<close>

record StoredDocument =
  stored_content :: string
  stored_embedding :: "real list option"
  stored_metadata :: metadata

definition storeDocument ::
  "(string \<times> StoredDocument) list \<Rightarrow> string \<Rightarrow> string \<Rightarrow> real list option \<Rightarrow> metadata \<Rightarrow>
   (string \<times> StoredDocument) list" where
  "storeDocument store i content embedding md =
     amap_set store i \<lparr>stored_content = content, stored_embedding = embedding, stored_metadata = md\<rparr>"

definition retrieveDocument :: "(string \<times> StoredDocument) list \<Rightarrow> string \<Rightarrow> StoredDocument option" where
  "retrieveDocument store i = map_of store i"

fun score_stored ::
  "real list option \<Rightarrow> (string \<times> StoredDocument) list \<Rightarrow> index_error + SemanticSearchResult list" where
  "score_stored q [] = Inr []"
| "score_stored q ((i, doc) # rest) =
     (case cosineSimilarity q (stored_embedding doc) of
        Inl e \<Rightarrow> Inl e
      | Inr s \<Rightarrow>
          (case score_stored q rest of
             Inl e \<Rightarrow> Inl e
           | Inr rs \<Rightarrow>
               Inr (\<lparr>result_id = i, result_score = s, result_content = stored_content doc,
                      result_metadata = Some (stored_metadata doc)\<rparr> # rs)))"

text \<open>\<open>findSimilar(embedding, limit, threshold = 0.7)\<close>.\<close>

definition findSimilar ::
  "(string \<times> StoredDocument) list \<Rightarrow> real list \<Rightarrow> int \<Rightarrow> real option \<Rightarrow>
   index_error + SemanticSearchResult list" where
  "findSimilar store embedding limit threshold' =
     (let t = (case threshold' of None \<Rightarrow> 7 / 10 | Some t \<Rightarrow> t)
      in case score_stored (Some embedding) store of
           Inl e \<Rightarrow> Inl e
         | Inr scored \<Rightarrow>
             Inr (slice0 (sort_key (\<lambda>r. - result_score r)
                            (filter (\<lambda>r. result_score r \<ge> t) scored)) limit))"

section \<open>The orchestrator (\<open>VoidIndexing\<close>)\<close>

datatype ChunkingStrategyType = FixedSize | Semantic | AST | Hybrid

text \<open>
  The strategy objects the orchestrator dispatches to. The syntax-tree strategy wraps an
  external parser; it is represented by its \<open>chunk\<close> function.
\<close>

datatype ChunkingStrategy =
    FixedSizeChunkingStrategy ChunkingOptions
  | SemanticChunkingStrategy ChunkingOptions
  | ASTChunkingStrategy "string \<Rightarrow> metadata \<Rightarrow> bool \<Rightarrow> Chunk list"

text \<open>\<open>strategy.chunk(content, metadata, token)\<close>; \<open>None\<close> is a call that does not return.\<close>

fun strategy_chunk :: "ChunkingStrategy \<Rightarrow> string \<Rightarrow> metadata \<Rightarrow> bool \<Rightarrow> Chunk list option" where
  "strategy_chunk (FixedSizeChunkingStrategy opts) content md cancelled =
     FixedSize_chunk opts content md cancelled"
| "strategy_chunk (SemanticChunkingStrategy opts) content md cancelled =
     Some (Semantic_chunk opts content md cancelled)"
| "strategy_chunk (ASTChunkingStrategy f) content md cancelled = Some (f content md cancelled)"

record VoidIndexing =
  providers :: "string \<rightharpoonup> EmbeddingProvider"
  semanticSearch :: "(string \<times> SearchDocument) list"
  chunkingStrategies :: "ChunkingStrategyType \<rightharpoonup> ChunkingStrategy"
  promptTemplate :: PromptTemplate
  storage :: "(string \<times> StoredDocument) list"
  defaultProviderId :: string

record VoidIndexingConfig =
  embeddingProvider :: "EmbeddingProvider option"
  config_promptTemplate :: PromptTemplate
  chunkingOptions :: ChunkingOptions
  astParser :: "(string \<Rightarrow> metadata \<Rightarrow> bool \<Rightarrow> Chunk list) option"

text \<open>
  The constructor, with the in-memory storage adapter: the embedding service gets the
  configured provider under the id \<open>default\<close>, the search engine starts with an empty
  \<open>documents\<close> map of its own, and the storage starts empty. The configuration holds the
  prompt template and the chunking options after their merge with the defaults.
\<close>

definition new_VoidIndexing :: "VoidIndexingConfig \<Rightarrow> VoidIndexing" where
  "new_VoidIndexing config =
     \<lparr>providers = (case embeddingProvider config of None \<Rightarrow> Map.empty
                    | Some p \<Rightarrow> [''default'' \<mapsto> p]),
      semanticSearch = [],
      chunkingStrategies =
        (let base = [FixedSize \<mapsto> FixedSizeChunkingStrategy (chunkingOptions config),
                     Semantic \<mapsto> SemanticChunkingStrategy (chunkingOptions config)]
         in case astParser config of None \<Rightarrow> base | Some f \<Rightarrow> base(AST \<mapsto> ASTChunkingStrategy f)),
      promptTemplate = config_promptTemplate config,
      storage = [],
      defaultProviderId = ''default''\<rparr>"

record IndexingOptions =
  chunkingStrategy :: "ChunkingStrategyType option"
  providerId :: "string option"

definition no_indexing_options :: IndexingOptions where
  "no_indexing_options = \<lparr>chunkingStrategy = None, providerId = None\<rparr>"

text \<open>\<open>s.split(sep).pop()\<close>: the part of \<open>s\<close> after the last separator.\<close>

definition last_part :: "char \<Rightarrow> string \<Rightarrow> string" where
  "last_part sep s = rev (takeWhile (\<lambda>c. c \<noteq> sep) (rev s))"

definition extensionMap :: "(string \<times> string) list" where
  "extensionMap =
     [(''js'', ''javascript''), (''ts'', ''typescript''), (''jsx'', ''javascript''),
      (''tsx'', ''typescript''), (''py'', ''python''), (''java'', ''java''), (''c'', ''c''),
      (''cpp'', ''cpp''), (''cs'', ''csharp''), (''go'', ''go''), (''rs'', ''rust''),
      (''php'', ''php''), (''rb'', ''ruby''), (''swift'', ''swift''), (''kt'', ''kotlin''),
      (''scala'', ''scala''), (''sh'', ''shell''), (''html'', ''html''), (''css'', ''css''),
      (''scss'', ''scss''), (''json'', ''json''), (''md'', ''markdown''), (''yaml'', ''yaml''),
      (''yml'', ''yaml''), (''xml'', ''xml''), (''sql'', ''sql'')]"

definition getLanguageFromExtension :: "string \<Rightarrow> string" where
  "getLanguageFromExtension extension =
     (case map_of extensionMap (toLowerCase extension) of None \<Rightarrow> ''plaintext'' | Some l \<Rightarrow> l)"

text \<open>The metadata \<open>indexFile\<close> attaches to a file; \<open>now\<close> is \<open>new Date().toISOString()\<close>.\<close>

definition file_metadata :: "string \<Rightarrow> string \<Rightarrow> metadata" where
  "file_metadata filePath now =
     (let fileName = last_part CHR ''/'' filePath;
          fileExtension = (if CHR ''.'' \<in> set fileName then last_part CHR ''.'' fileName else [])
      in [(''fileName'', VStr fileName), (''filePath'', VStr filePath),
          (''language'', VStr (getLanguageFromExtension fileExtension)),
          (''fileExtension'', VStr fileExtension), (''indexedAt'', VStr now)])"

text \<open>
  \<open>options.chunkingStrategy || ChunkingStrategyType.Semantic\<close>, where the enum value
  \<open>FixedSize\<close> is the number 0 and therefore falsy, followed by
  \<open>this.chunkingStrategies.get(strategy) || this.chunkingStrategies.get(FixedSize)!\<close>.
\<close>

definition select_strategy :: "VoidIndexing \<Rightarrow> IndexingOptions \<Rightarrow> ChunkingStrategy option" where
  "select_strategy s options =
     (let strategy = (case chunkingStrategy options of None \<Rightarrow> Semantic
                      | Some FixedSize \<Rightarrow> Semantic
                      | Some t \<Rightarrow> t)
      in case chunkingStrategies s strategy of
           Some st \<Rightarrow> Some st
         | None \<Rightarrow> chunkingStrategies s FixedSize)"

definition provider_of :: "VoidIndexing \<Rightarrow> IndexingOptions \<Rightarrow> string" where
  "provider_of s options = or_default (providerId options) (defaultProviderId s)"

text \<open>The "store each chunk" loop of \<open>indexFile\<close> (the token is not cancelled): an embedding
  that throws ends the call and leaves the chunks stored so far.\<close>

fun store_chunks :: "VoidIndexing \<Rightarrow> string \<Rightarrow> Chunk list \<Rightarrow> index_error option \<times> VoidIndexing" where
  "store_chunks s pid [] = (None, s)"
| "store_chunks s pid (chunk # rest) =
     (case service_computeEmbeddings (providers s) pid [chunk_content chunk] False of
        Inl e \<Rightarrow> (Some e, s)
      | Inr es \<Rightarrow>
          store_chunks
            (s\<lparr>storage := storeDocument (storage s) (chunk_id chunk) (chunk_content chunk)
                             (first_embedding es) (chunk_metadata chunk)\<rparr>)
            pid rest)"

text \<open>
  \<open>indexFile\<close>. The result is \<open>None\<close> when the chunking strategy does not return, and otherwise
  the returned chunks or the error thrown, together with the orchestrator after the call.
\<close>

definition indexFile ::
  "VoidIndexing \<Rightarrow> string \<Rightarrow> string \<Rightarrow> IndexingOptions \<Rightarrow> bool \<Rightarrow> string \<Rightarrow>
   ((index_error + Chunk list) \<times> VoidIndexing) option" where
  "indexFile s filePath content options cancelled now =
     (if cancelled then Some (Inr [], s)
      else
        let md = file_metadata filePath now in
        case select_strategy s options of
          None \<Rightarrow> Some (Inl TypeError, s)
        | Some st \<Rightarrow>
            (case strategy_chunk st content md cancelled of
               None \<Rightarrow> None
             | Some chunks \<Rightarrow>
                 (let pid = provider_of s options in
                  case providers s pid of
                    None \<Rightarrow> Some (Inl (NoSuchProvider pid), s)
                  | Some provider \<Rightarrow>
                      (case store_chunks s pid chunks of
                         (Some e, s') \<Rightarrow> Some (Inl e, s')
                       | (None, s') \<Rightarrow> Some (Inr chunks, s')))))"

text \<open>\<open>indexContent\<close>: only the first chunk is embedded and stored.\<close>

definition indexContent ::
  "VoidIndexing \<Rightarrow> string \<Rightarrow> metadata \<Rightarrow> IndexingOptions \<Rightarrow> bool \<Rightarrow>
   ((index_error + Chunk option) \<times> VoidIndexing) option" where
  "indexContent s content md options cancelled =
     (if cancelled then Some (Inr None, s)
      else
        case select_strategy s options of
          None \<Rightarrow> Some (Inl TypeError, s)
        | Some st \<Rightarrow>
            (case strategy_chunk st content md cancelled of
               None \<Rightarrow> None
             | Some [] \<Rightarrow> Some (Inr None, s)
             | Some (chunk # rest) \<Rightarrow>
                 (case service_computeEmbeddings (providers s) (provider_of s options)
                         [chunk_content chunk] cancelled of
                    Inl e \<Rightarrow> Some (Inl e, s)
                  | Inr es \<Rightarrow>
                      Some (Inr (Some chunk),
                            s\<lparr>storage := storeDocument (storage s) (chunk_id chunk) (chunk_content chunk)
                                             (first_embedding es) (chunk_metadata chunk)\<rparr>))))"

record SearchResult =
  sr_id :: string
  sr_content :: string
  sr_score :: real
  sr_metadata :: metadata

text \<open>\<open>VoidIndexing.search\<close>: the query goes to the search engine of the orchestrator, with the
  options as they were given.\<close>

definition search ::
  "VoidIndexing \<Rightarrow> string \<Rightarrow> SemanticSearchOptions \<Rightarrow> bool \<Rightarrow> index_error + SearchResult list" where
  "search s query' options cancelled =
     (if cancelled then Inr []
      else case engine_search (providers s) (semanticSearch s) query' (defaultProviderId s)
                  options cancelled of
             Inl e \<Rightarrow> Inl e
           | Inr searchResults \<Rightarrow>
               Inr (map (\<lambda>r. \<lparr>sr_id = result_id r, sr_content = result_content r,
                                sr_score = result_score r,
                                sr_metadata = (case result_metadata r of None \<Rightarrow> [] | Some m \<Rightarrow> m)\<rparr>)
                        searchResults))"

record BuildPromptOptions =
  maxContextItems :: "int option"
  searchThreshold :: "real option"
  bp_modelCapabilities :: "ModelCapabilities option"
  bp_systemInfo :: "(string \<times> string) list option"

text \<open>A numeric metadata entry with \<open>|| 0\<close>.\<close>

definition meta_number :: "metadata \<Rightarrow> string \<Rightarrow> int" where
  "meta_number md k = (case map_of md k of Some (VNum n) \<Rightarrow> n | _ \<Rightarrow> 0)"

definition snippet_of_result :: "SearchResult \<Rightarrow> ExtendedCodeSnippet" where
  "snippet_of_result r =
     \<lparr>snippet_content = sr_content r,
      startLine = meta_number (sr_metadata r) ''startLine'',
      endLine = meta_number (sr_metadata r) ''endLine'',
      relevance = sr_score r,
      snippet_type = Exact,
      snippet_fileName = Some (or_default (Some (meta_string (sr_metadata r) ''fileName'')) ''unknown''),
      snippet_language = Some (or_default (Some (meta_string (sr_metadata r) ''language'')) ''plaintext'')\<rparr>"

text \<open>The prompt returned for a cancelled token.\<close>

definition empty_prompt :: "string \<Rightarrow> PromptResult" where
  "empty_prompt query' =
     \<lparr>systemMessage = None, userMessage = query',
      includedSnippets = 0, totalSnippets = 0, estimatedTokens = 0\<rparr>"

text \<open>\<open>VoidIndexing.buildPrompt\<close>: search, then format.\<close>

definition buildPrompt ::
  "VoidIndexing \<Rightarrow> string \<Rightarrow> BuildPromptOptions \<Rightarrow> bool \<Rightarrow> index_error + PromptResult" where
  "buildPrompt s query' options cancelled =
     (if cancelled then Inr (empty_prompt query')
      else
        case search s query'
               (no_options
                  \<lparr>topK := Some (case maxContextItems options of None \<Rightarrow> 5
                                  | Some k \<Rightarrow> if k = 0 then 5 else k),
                   threshold := Some (case searchThreshold options of None \<Rightarrow> 7 / 10
                                       | Some t \<Rightarrow> if t = 0 then 7 / 10 else t)\<rparr>)
               cancelled of
          Inl e \<Rightarrow> Inl e
        | Inr results \<Rightarrow>
            Inr (PromptBuilder_buildPrompt (promptTemplate s)
                   \<lparr>query = query', codeSnippets = map snippet_of_result results,
                    systemInfo = bp_systemInfo options,
                    modelCapabilities = bp_modelCapabilities options\<rparr>))"

subsection \<open>A small orchestrator\<close>

text \<open>A provider with two-dimensional embeddings: the text \<open>hello\<close> lies on the first axis,
  every other text on the second.\<close>

definition axis_provider :: EmbeddingProvider where
  "axis_provider =
     \<lparr>computeEmbeddings = map (\<lambda>t. if t = ''hello'' then [1, 0] else [0, 1]),
      dimensions = 2, modelName = ''axis''\<rparr>"

definition demo_indexing :: VoidIndexing where
  "demo_indexing =
     new_VoidIndexing \<lparr>embeddingProvider = Some axis_provider, config_promptTemplate = defaultTemplate,
                       chunkingOptions = default_ChunkingOptions, astParser = None\<rparr>"

definition demo_metadata :: metadata where
  "demo_metadata =
     [(''fileName'', VStr ''a.ts''), (''filePath'', VStr ''a.ts''), (''language'', VStr ''typescript''),
      (''fileExtension'', VStr ''ts''), (''indexedAt'', VStr ''2024-01-01T00:00:00.000Z'')]"

definition demo_chunk :: Chunk where
  "demo_chunk =
     \<lparr>chunk_id = ''chunk-a_ts-0-5e918d2'', chunk_content = ''hello'',
      chunk_metadata = (''startLine'', VNum 0) # (''endLine'', VNum 0) # demo_metadata\<rparr>"

definition demo_indexed :: VoidIndexing where
  "demo_indexed =
     demo_indexing\<lparr>storage :=
       [(''chunk-a_ts-0-5e918d2'',
         \<lparr>stored_content = ''hello'', stored_embedding = Some [1, 0],
          stored_metadata = (''startLine'', VNum 0) # (''endLine'', VNum 0) # demo_metadata\<rparr>)]\<rparr>"

text \<open>A search engine holding one document, added with \<open>addDocument\<close>, whose embedding is
  orthogonal to that of the query \<open>hello\<close>.\<close>

definition other_document :: "(string \<times> SearchDocument) list" where
  "other_document = [(''d'', \<lparr>doc_text = ''other'', doc_embedding = Some [0, 1], doc_metadata = None\<rparr>)]"

chapter \<open>Properties\<close>

section \<open>Properties of the context keys\<close>

subsection \<open>Lookup and update of single objects\<close>

lemma getValue_own: "h a = Some c \<Longrightarrow> cvalue c k = Some w \<Longrightarrow> getValue h a k = Some w"
  by (subst getValue.simps) simp

lemma setValue_other: "a \<noteq> r \<Longrightarrow> setValue h r k v a = h a"
  by (simp add: setValue_def split: option.splits)

lemma removeValue_other: "a \<noteq> r \<Longrightarrow> removeValue h r k a = h a"
  by (simp add: removeValue_def split: option.splits)

lemma getValue_setValue_falls:
  assumes "falls_through h k a r" and "h r = Some c"
  shows "getValue (setValue h r k v) a k = Some v"
  using assms
proof (induction rule: falls_through.induct)
  case (at_root h k r)
  then show ?case by (subst getValue.simps) (simp add: setValue_def)
next
  case (via_parent h a c' k p r)
  show ?case
  proof (cases "a = r")
    case True
    with via_parent.prems show ?thesis by (subst getValue.simps) (simp add: setValue_def)
  next
    case False
    have "setValue h r k v a = Some c'"
      using False via_parent.hyps(1) via_parent.prems by (simp add: setValue_def)
    moreover have "getValue (setValue h r k v) p k = Some v"
      using via_parent.IH via_parent.prems by simp
    ultimately show ?thesis
      using via_parent.hyps(2,3) by (subst getValue.simps) simp
  qed
qed

lemma shadowing_service_objects:
  "objects shadowing_service =
     [1 \<mapsto> new_Context 1 None,
      2 \<mapsto> \<lparr>cid = 2, cvalue = [''rootKey'' \<mapsto> VStr ''v2''], cparent = Some 1\<rparr>]"
  by (simp add: shadowing_service_def createChildContext_def getContextValuesContainer_def
      new_ContextKeyService_def new_Context_def setValue_def Let_def numeral_2_eq_2)

lemma shadowing_service_contexts: "contexts shadowing_service = [1 \<mapsto> 1, 2 \<mapsto> 2]"
  by (simp add: shadowing_service_def createChildContext_def getContextValuesContainer_def
      new_ContextKeyService_def Let_def numeral_2_eq_2)

subsection \<open>Disposing the root context\<close>

text \<open>
  C8 (as amended). \<open>disposeContext\<close> never raises: for every service and every id, the root id 1
  included, it returns normally with that id removed from the service's context map, and the
  id is unknown to \<open>getContextValuesContainer\<close> afterwards. Once the root id has been
  disposed, \<open>setContext\<close> and \<open>removeContext\<close> change nothing, \<open>getContextKeyValue\<close> answers
  \<open>undefined\<close>, and \<open>createChildContext(1)\<close> raises \<open>Unknown context\<close>.
\<close>

theorem disposeContext_never_raises:
  "disposeContext s i = Inr (s\<lparr>contexts := (contexts s)(i := None)\<rparr>) \<and>
   getContextValuesContainer (s\<lparr>contexts := (contexts s)(i := None)\<rparr>) i = Inl (UnknownContext i) \<and>
   (let s1 = s\<lparr>contexts := (contexts s)(1 := None)\<rparr> in
      disposeContext s 1 = Inr s1 \<and> setContext s1 k v = s1 \<and> removeContext s1 k = s1 \<and>
      getContextKeyValue s1 k = Some Undefined \<and> createChildContext s1 1 = Inl (UnknownContext 1))"
  by (simp add: disposeContext_def getContextValuesContainer_def setContext_def removeContext_def
      getContextKeyValue_def createChildContext_def Let_def)

text \<open>
  C8 (as stated) fails on a fresh service: \<open>disposeContext(1)\<close> returns normally, the root is
  gone from the context map, and the lookup of the root through the service raises.
\<close>

theorem disposeContext_root_counterexample:
  "disposeContext new_ContextKeyService 1 = Inr (new_ContextKeyService\<lparr>contexts := Map.empty\<rparr>) \<and>
   getContextValuesContainer (new_ContextKeyService\<lparr>contexts := Map.empty\<rparr>) 1 = Inl (UnknownContext 1)"
  by (simp add: disposeContext_def new_ContextKeyService_def getContextValuesContainer_def)

subsection \<open>Frame of \<open>set\<close> and \<open>reset\<close>\<close>

text \<open>
  C10 (as amended). \<open>set(value)\<close> and \<open>reset()\<close> of a context key write to no object other than
  the one listed under id 1: the own value map of every other context is unchanged. After
  \<open>set(value)\<close>, with the root listed, every context whose parent chain reaches the root with no
  own entry for the key on the way reads the new value (parent fall-through); a context other
  than the root that has an own entry for the key keeps reading its own entry.
\<close>

theorem key_set_frame_fallthrough:
  "(\<forall>a. contexts s 1 \<noteq> Some a \<longrightarrow>
        objects (key_set s ckey v) a = objects s a \<and> objects (key_reset s ckey) a = objects s a) \<and>
   (\<forall>r c a. contexts s 1 = Some r \<and> objects s r = Some c \<and>
        falls_through (objects s) (key_name ckey) a r \<longrightarrow>
        getValue (objects (key_set s ckey v)) a (key_name ckey) = Some v) \<and>
   (\<forall>a c w. contexts s 1 \<noteq> Some a \<and> objects s a = Some c \<and> cvalue c (key_name ckey) = Some w \<longrightarrow>
        getValue (objects (key_set s ckey v)) a (key_name ckey) = Some w)"
proof (intro conjI allI impI)
  fix a assume "contexts s 1 \<noteq> Some a"
  then show "objects (key_set s ckey v) a = objects s a"
    by (auto simp: key_set_def setContext_def setValue_other split: option.splits)
next
  fix a assume "contexts s 1 \<noteq> Some a"
  then show "objects (key_reset s ckey) a = objects s a"
    by (auto simp: key_reset_def setContext_def removeContext_def setValue_other removeValue_other
        split: option.splits)
next
  fix r c a
  assume "contexts s 1 = Some r \<and> objects s r = Some c \<and> falls_through (objects s) (key_name ckey) a r"
  then show "getValue (objects (key_set s ckey v)) a (key_name ckey) = Some v"
    by (simp add: key_set_def setContext_def getValue_setValue_falls)
next
  fix a c w
  assume h: "contexts s 1 \<noteq> Some a \<and> objects s a = Some c \<and> cvalue c (key_name ckey) = Some w"
  then have "objects (key_set s ckey v) a = Some c"
    by (auto simp: key_set_def setContext_def setValue_other split: option.splits)
  with h show "getValue (objects (key_set s ckey v)) a (key_name ckey) = Some w"
    by (simp add: getValue_own)
qed

text \<open>
  Witness for C10 on the service with one child: setting \<open>childKey\<close>, which the child does not
  hold, leaves the child's object as it was and is read by the child through the root; setting
  \<open>rootKey\<close>, which the child holds, is not read by the child.
\<close>

theorem key_set_frame_fallthrough_witness:
  "objects (key_set shadowing_service \<lparr>key_name = ''childKey'', defaultValue = Undefined\<rparr> (VStr ''c'')) 2
     = objects shadowing_service 2 \<and>
   objects (key_reset shadowing_service \<lparr>key_name = ''childKey'', defaultValue = Undefined\<rparr>) 2
     = objects shadowing_service 2 \<and>
   getValue (objects (key_set shadowing_service \<lparr>key_name = ''childKey'', defaultValue = Undefined\<rparr> (VStr ''c'')))
     2 ''childKey'' = Some (VStr ''c'') \<and>
   getValue (objects (key_set shadowing_service \<lparr>key_name = ''rootKey'', defaultValue = Undefined\<rparr> (VStr ''v'')))
     2 ''rootKey'' = Some (VStr ''v2'')"
proof -
  let ?ck = "\<lparr>key_name = ''childKey'', defaultValue = Undefined\<rparr>"
  let ?rk = "\<lparr>key_name = ''rootKey'', defaultValue = Undefined\<rparr>"
  have root: "contexts shadowing_service 1 = Some 1"
    and root_obj: "objects shadowing_service 1 = Some (new_Context 1 None)"
    and child_obj: "objects shadowing_service 2
        = Some \<lparr>cid = 2, cvalue = [''rootKey'' \<mapsto> VStr ''v2''], cparent = Some 1\<rparr>"
    by (simp_all add: shadowing_service_contexts shadowing_service_objects)
  have not_root: "contexts shadowing_service 1 \<noteq> Some 2"
    by (simp add: shadowing_service_contexts)
  have chain: "falls_through (objects shadowing_service) (key_name ?ck) 2 1"
    by (rule via_parent [where h = "objects shadowing_service" and a = 2 and p = 1,
          OF child_obj]) (simp_all add: at_root)
  have own: "cvalue \<lparr>cid = 2, cvalue = [''rootKey'' \<mapsto> VStr ''v2''], cparent = Some 1\<rparr> (key_name ?rk)
      = Some (VStr ''v2'')"
    by simp
  note ck = key_set_frame_fallthrough [of shadowing_service ?ck "VStr ''c''"]
  note rk = key_set_frame_fallthrough [of shadowing_service ?rk "VStr ''v''"]
  have frame: "objects (key_set shadowing_service ?ck (VStr ''c'')) 2 = objects shadowing_service 2 \<and>
      objects (key_reset shadowing_service ?ck) 2 = objects shadowing_service 2"
    using ck not_root by blast
  have seen: "getValue (objects (key_set shadowing_service ?ck (VStr ''c''))) 2 (key_name ?ck)
      = Some (VStr ''c'')"
    using ck root root_obj chain by blast
  have kept: "getValue (objects (key_set shadowing_service ?rk (VStr ''v''))) 2 (key_name ?rk)
      = Some (VStr ''v2'')"
    using rk not_root child_obj own by blast
  show ?thesis
    using frame seen kept by simp
qed

text \<open>
  C10 (as stated) fails where a child shadows the key: after \<open>set('v')\<close> on \<open>rootKey\<close> the root
  reads \<open>'v'\<close>, the child still reads its own \<open>'v2'\<close>.
\<close>

theorem key_set_shadowed_counterexample:
  "getValue (objects (key_set shadowing_service \<lparr>key_name = ''rootKey'', defaultValue = Undefined\<rparr> (VStr ''v'')))
     2 ''rootKey'' = Some (VStr ''v2'') \<and>
   getValue (objects (key_set shadowing_service \<lparr>key_name = ''rootKey'', defaultValue = Undefined\<rparr> (VStr ''v'')))
     1 ''rootKey'' = Some (VStr ''v'')"
  by (simp add: shadowing_service_objects shadowing_service_contexts new_Context_def
      key_set_def setContext_def setValue_def getValue.simps)

section \<open>Properties of the ranker\<close>

subsection \<open>Ranking items whose factors are all zero\<close>

lemma sort_key_const: "(\<And>x. x \<in> set xs \<Longrightarrow> f x = (c::real)) \<Longrightarrow> sort_key f xs = xs"
  by (induction xs) (simp_all add: insort_is_Cons)

lemma foldl_add_replicate: "foldl (+) (a::real) (replicate n c) = a + real n * c"
  by (induction n arbitrary: a) (simp_all add: algebra_simps)

lemma scored_zero:
  assumes "\<forall>i \<in> set items. scoreFn i qry = zero_factors"
  shows "map (\<lambda>i. let f = scoreFn i qry in
                         \<lparr>item = i, score = calculateWeightedScore opts f, factors = f\<rparr>) items
    = map (\<lambda>i. \<lparr>item = i, score = 0, factors = zero_factors\<rparr>) items"
  using assms by (simp add: calculateWeightedScore_def zero_factors_def Let_def)

text \<open>
  C3 (as amended). When the score function returns 0 for all five factors of every item and
  \<open>minScore > 0\<close>, every weighted score is 0, and the output depends on the normalisation:
  under \<open>none\<close> the scores stay 0 and \<open>rankItems\<close> returns the empty list; under \<open>minMax\<close> (the
  default) equal scores are normalised to 1.0, so every item is returned, in input order, with
  score 1 as long as \<open>minScore \<le> 1\<close>; under \<open>softmax\<close> every score is \<open>1/n\<close> for \<open>n\<close> items, and
  the items are returned when \<open>minScore \<le> 1/n\<close> and dropped otherwise.
\<close>

theorem rankItems_all_zero:
  assumes "\<forall>i \<in> set items. scoreFn i qry = zero_factors" and "0 < minScore opts"
  shows "rankItems opts items qry scoreFn False =
     (case normalizationStrategy opts of
        NoNormalization \<Rightarrow> []
      | MinMax \<Rightarrow>
          if minScore opts \<le> 1
          then map (\<lambda>i. \<lparr>item = i, score = 1, factors = zero_factors\<rparr>) items else []
      | Softmax \<Rightarrow>
          if minScore opts * real (length items) \<le> 1
          then map (\<lambda>i. \<lparr>item = i, score = 1 / real (length items), factors = zero_factors\<rparr>) items
          else [])"
proof (cases "items = []")
  case True
  then show ?thesis
    by (simp add: rankItems_def normalizeScores_def split: normalization.splits)
next
  case False
  let ?z = "map (\<lambda>i. \<lparr>item = i, score = 0, factors = zero_factors\<rparr>) items"
  have z: "?z \<noteq> []" using False by simp
  note sz = scored_zero [of items scoreFn qry opts, OF assms(1)]
  have scores: "map score ?z = replicate (length items) 0"
    by (simp add: map_replicate_const comp_def)
  have setz: "set (map score ?z) = {0}"
    using False by (cases items) (auto simp: comp_def)
  have n: "0 < real (length items)" using False by simp
  show ?thesis
  proof (cases "normalizationStrategy opts")
    case NoNormalization
    then have "normalizeScores opts ?z = ?z"
      by (simp add: normalizeScores_def)
    moreover have "filter (\<lambda>i. score i \<ge> minScore opts) ?z = []"
      using assms(2) by (simp add: filter_empty_conv)
    ultimately show ?thesis
      using NoNormalization by (simp add: rankItems_def sz)
  next
    case MinMax
    let ?o = "map (\<lambda>i. \<lparr>item = i, score = 1, factors = zero_factors\<rparr>) items"
    have norm: "normalizeScores opts ?z = ?o"
      using MinMax z setz by (simp add: normalizeScores_def Let_def comp_def del: set_map)
    have "filter (\<lambda>i. score i \<ge> minScore opts) ?o = (if minScore opts \<le> 1 then ?o else [])"
      by (simp add: filter_empty_conv comp_def)
    moreover have "sort_key (\<lambda>i. - score i) ?o = ?o"
      by (rule sort_key_const [where c = "-1"]) auto
    ultimately show ?thesis
      using MinMax norm by (simp add: rankItems_def sz)
  next
    case Softmax
    let ?o = "map (\<lambda>i. \<lparr>item = i, score = 1 / real (length items), factors = zero_factors\<rparr>) items"
    have e: "map (\<lambda>i. exp (score i)) ?z = replicate (length items) 1"
      by (simp add: map_replicate_const comp_def)
    have norm: "normalizeScores opts ?z = ?o"
      using Softmax z unfolding normalizeScores_def Let_def e
      by (simp add: foldl_add_replicate zip_replicate2 map_idI comp_def case_prod_unfold
          zip_map1 zip_same_conv_map)
    have "filter (\<lambda>i. score i \<ge> minScore opts) ?o
        = (if minScore opts * real (length items) \<le> 1 then ?o else [])"
      using n by (simp add: filter_empty_conv comp_def field_simps)
    moreover have "sort_key (\<lambda>i. - score i) ?o = ?o"
      by (rule sort_key_const [where c = "- (1 / real (length items))"]) auto
    ultimately show ?thesis
      using Softmax norm by (simp add: rankItems_def sz)
  qed
qed

text \<open>
  Witness for C3: two items with zero factors, the default weights and \<open>minScore = 0.2\<close>:
  nothing is returned under \<open>none\<close>.
\<close>

theorem rankItems_all_zero_witness:
  "0 < minScore (default_RankerOptions\<lparr>normalizationStrategy := NoNormalization\<rparr>) \<and>
   rankItems (default_RankerOptions\<lparr>normalizationStrategy := NoNormalization\<rparr>)
     [''a'', ''b''] ''q'' (\<lambda>i q. zero_factors) False = []"
proof -
  let ?opts = "default_RankerOptions\<lparr>normalizationStrategy := NoNormalization\<rparr>"
  have pos: "0 < minScore ?opts"
    by (simp add: default_RankerOptions_def)
  have zero: "\<forall>i \<in> set [''a'', ''b'']. (\<lambda>i q. zero_factors) i ''q'' = zero_factors"
    by simp
  show ?thesis
    using rankItems_all_zero [of "[''a'', ''b'']" "\<lambda>i q. zero_factors" "''q''" ?opts, OF zero pos] pos
    by simp
qed

text \<open>
  C3 (as stated) fails under the default options (\<open>minMax\<close>, \<open>minScore = 0.2 > 0\<close>): one item
  whose five factors are all 0 is returned, with score 1.
\<close>

theorem rankItems_all_zero_counterexample:
  "0 < minScore default_RankerOptions \<and>
   rankItems default_RankerOptions [''a''] ''q'' (\<lambda>i q. zero_factors) False
     = [\<lparr>item = ''a'', score = 1, factors = zero_factors\<rparr>]"
  by (simp add: rankItems_def normalizeScores_def calculateWeightedScore_def zero_factors_def
      default_RankerOptions_def Let_def)

section \<open>Properties of the sparse index\<close>

subsection \<open>Scores per chunk, counters after an update\<close>

lemmas term_simps = splitTerms_def term_matches_def is_term_match_def terms_of_word_def
  toLowerCase_def to_lower_def is_word_char_def is_letter_def is_lower_def is_upper_def is_digit_def
  termFrequencies_def countMapFrom_def

lemma termFrequencies_cat: "termFrequencies ''cat'' = [(''cat'', 1)]"
  by (simp add: term_simps)

lemma termFrequencies_cat_cat: "termFrequencies ''cat cat'' = [(''cat'', 2)]"
  by (simp add: term_simps)

lemma termFrequencies_alpha: "termFrequencies ''alpha'' = [(''alpha'', 1)]"
  by (simp add: term_simps)

lemma termFrequencies_beta: "termFrequencies ''beta'' = [(''beta'', 1)]"
  by (simp add: term_simps)

lemma two_chunk_index_eq:
  "two_chunk_index =
     \<lparr>chunkCount = 2, chunkOccurrences = [''cat'' \<mapsto> 2],
      documents = [(''doc'', [\<lparr>chunk_text = ''cat'', tf = [(''cat'', 1)]\<rparr>,
                              \<lparr>chunk_text = ''cat cat'', tf = [(''cat'', 2)]\<rparr>])]\<rparr>"
  by (simp add: two_chunk_index_def updateDocuments_def deleteDocument_def insertDocument_def
      new_TfIdfCalculator_def termFrequencies_cat termFrequencies_cat_cat count_term_def)

lemma ln_three_halves_pos: "0 < ln (3 / 2 :: real)"
  by simp

text \<open>
  C2. The class comment promises one score per document, the maximum over its chunks
  ("the score for each document is computed by taking the max score over all the chunks in the
  document", "For each document, generate one score"). The code pushes one entry per chunk of
  positive score: for the document \<open>doc\<close> with chunks \<open>cat\<close> and \<open>cat cat\<close> and the query \<open>cat\<close>,
  \<open>calculateScores\<close> returns two entries with key \<open>doc\<close>, and the first of them is not the
  maximum.
\<close>

theorem calculateScores_entry_per_chunk:
  "calculateScores two_chunk_index ''cat'' False =
     [\<lparr>tfidf_key = ''doc'', tfidf_score = ln (3 / 2) * ln (3 / 2)\<rparr>,
      \<lparr>tfidf_key = ''doc'', tfidf_score = 2 * ln (3 / 2) * ln (3 / 2)\<rparr>]"
  by (simp add: calculateScores_def computeEmbedding_def computeTfidf_def computeIdf_def
      computeSimilarityScore_def two_chunk_index_eq termFrequencies_cat)

text \<open>
  C6. \<open>updateDocuments\<close> first deletes the keys of the batch and then inserts its documents, which
  keeps the counters in step with the stored documents only when the keys of the batch differ.
  With two documents under the key \<open>a\<close> in one batch, the second insertion replaces the stored
  document without taking back the counts of the first: the chunk count is 2 for one stored
  chunk, the term \<open>alpha\<close> of the replaced chunk keeps its counter, and after deleting the only
  key neither the chunk count nor the occurrence map is empty.
\<close>

theorem updateDocuments_duplicate_key:
  "chunkCount duplicate_key_index = 2 \<and>
   documents duplicate_key_index = [(''a'', [\<lparr>chunk_text = ''beta'', tf = [(''beta'', 1)]\<rparr>])] \<and>
   chunkOccurrences duplicate_key_index ''alpha'' = Some 1 \<and>
   chunkCount (deleteDocument duplicate_key_index ''a'') = 1 \<and>
   documents (deleteDocument duplicate_key_index ''a'') = [] \<and>
   chunkOccurrences (deleteDocument duplicate_key_index ''a'') ''alpha'' = Some 1"
  by (simp add: duplicate_key_index_def updateDocuments_def deleteDocument_def insertDocument_def
      new_TfIdfCalculator_def termFrequencies_alpha termFrequencies_beta count_term_def
      forget_term_def)

lemma calculateScores_cancelled: "calculateScores c qry True = []"
  by (cases "documents c") (auto simp: calculateScores_def)

subsection \<open>Counters and stored documents for batches of distinct keys\<close>

lemma fold_count_term:
  assumes "distinct ts" and "occ = (\<lambda>t. occ_of (n t))"
  shows "fold count_term ts occ = (\<lambda>t. occ_of (n t + (if t \<in> set ts then 1 else 0)))"
  using assms
proof (induction ts arbitrary: occ n)
  case Nil
  then show ?case by simp
next
  case (Cons a ts)
  have "count_term a occ = (\<lambda>t. occ_of ((n(a := n a + 1)) t))"
    using Cons.prems(2) by (auto simp: count_term_def occ_of_def fun_eq_iff)
  from Cons.IH [OF _ this] Cons.prems(1) show ?case
    by (auto simp: fun_eq_iff)
qed

lemma fold_forget_term:
  assumes "distinct ts" and "occ = (\<lambda>t. occ_of (n t))"
  shows "fold forget_term ts occ = (\<lambda>t. occ_of (n t - (if t \<in> set ts then 1 else 0)))"
  using assms
proof (induction ts arbitrary: occ n)
  case Nil
  then show ?case by simp
next
  case (Cons a ts)
  have "forget_term a occ = (\<lambda>t. occ_of ((n(a := n a - 1)) t))"
    using Cons.prems(2) by (auto simp: forget_term_def occ_of_def fun_eq_iff Let_def)
  from Cons.IH [OF _ this] Cons.prems(1) show ?case
    by (auto simp: fun_eq_iff)
qed

lemma fold_count_chunks:
  assumes "list_all (\<lambda>ch. distinct (map fst (tf ch))) cs" and "occ = (\<lambda>t. occ_of (n t))"
  shows "fold (\<lambda>chunk occ. fold count_term (map fst (tf chunk)) occ) cs occ
           = (\<lambda>t. occ_of (n t + term_count cs t))"
  using assms
proof (induction cs arbitrary: occ n)
  case Nil
  then show ?case by (simp add: term_count_def)
next
  case (Cons ch cs)
  have "fold count_term (map fst (tf ch)) occ
          = (\<lambda>t. occ_of (n t + (if t \<in> set (map fst (tf ch)) then 1 else 0)))"
    using Cons.prems by (intro fold_count_term) auto
  from Cons.IH [OF _ this] Cons.prems(1) show ?case
    by (auto simp: fun_eq_iff term_count_def)
qed

lemma fold_forget_chunks:
  assumes "list_all (\<lambda>ch. distinct (map fst (tf ch))) cs" and "occ = (\<lambda>t. occ_of (n t))"
  shows "fold (\<lambda>chunk occ. fold forget_term (map fst (tf chunk)) occ) cs occ
           = (\<lambda>t. occ_of (n t - term_count cs t))"
  using assms
proof (induction cs arbitrary: occ n)
  case Nil
  then show ?case by (simp add: term_count_def)
next
  case (Cons ch cs)
  have "fold forget_term (map fst (tf ch)) occ
          = (\<lambda>t. occ_of (n t - (if t \<in> set (map fst (tf ch)) then 1 else 0)))"
    using Cons.prems by (intro fold_forget_term) auto
  from Cons.IH [OF _ this] Cons.prems(1) show ?case
    by (auto simp: fun_eq_iff term_count_def)
qed

lemma term_count_append: "term_count (xs @ ys) t = term_count xs t + term_count ys t"
  by (simp add: term_count_def)

lemma amap_set_keys: "fst ` set (amap_set m k v) = insert k (fst ` set m)"
  by (induction m k v rule: amap_set.induct) auto

lemma amap_set_distinct: "distinct (map fst m) \<Longrightarrow> distinct (map fst (amap_set m k v))"
proof (induction m k v rule: amap_set.induct)
  case (1 k v)
  then show ?case by simp
next
  case (2 k' v' m k v)
  have "set (map fst (amap_set m k v)) = insert k (set (map fst m))"
    using amap_set_keys [of m k v] by simp
  with 2 show ?case by auto
qed

lemma amap_delete_keys: "fst ` set (amap_delete m k) \<subseteq> fst ` set m"
  by (induction m k rule: amap_delete.induct) auto

lemma amap_delete_split:
  assumes "distinct (map fst m)" and "map_of m k = Some v"
  shows "\<exists>xs ys. m = xs @ (k, v) # ys \<and> amap_delete m k = xs @ ys"
  using assms
proof (induction m)
  case Nil
  then show ?case by simp
next
  case (Cons p m)
  obtain k' v' where p: "p = (k', v')" by (cases p)
  show ?case
  proof (cases "k' = k")
    case True
    with Cons.prems p have "p # m = [] @ (k, v) # m \<and> amap_delete (p # m) k = [] @ m"
      by simp
    then show ?thesis by blast
  next
    case False
    with Cons p obtain xs ys where "m = xs @ (k, v) # ys" "amap_delete m k = xs @ ys"
      by auto
    with False p have "p # m = (p # xs) @ (k, v) # ys \<and> amap_delete (p # m) k = (p # xs) @ ys"
      by simp
    then show ?thesis by blast
  qed
qed

lemma amap_delete_removes: "distinct (map fst m) \<Longrightarrow> k \<notin> fst ` set (amap_delete m k)"
  by (induction m k rule: amap_delete.induct) (auto simp: image_iff)

lemma amap_delete_others: "k' \<noteq> k \<Longrightarrow> k' \<in> fst ` set (amap_delete m k) \<longleftrightarrow> k' \<in> fst ` set m"
  by (induction m k rule: amap_delete.induct) auto

lemma amap_delete_key_set:
  assumes "distinct (map fst m)"
  shows "fst ` set (amap_delete m k) = fst ` set m - {k}"
proof (rule set_eqI)
  fix k'
  show "k' \<in> fst ` set (amap_delete m k) \<longleftrightarrow> k' \<in> fst ` set m - {k}"
  proof (cases "k' = k")
    case True
    then show ?thesis using amap_delete_removes [OF assms, of k] by simp
  next
    case False
    then show ?thesis using amap_delete_others [of k' k m] by simp
  qed
qed

lemma amap_set_fresh: "k \<notin> fst ` set m \<Longrightarrow> amap_set m k v = m @ [(k, v)]"
  by (induction m k v rule: amap_set.induct) auto

lemma distinct_termFrequencies_keys: "distinct (map fst (countMapFrom vs))"
proof -
  have "distinct (map fst (fold (\<lambda>v m. amap_set m v ((case map_of m v of None \<Rightarrow> 0 | Some n \<Rightarrow> n) + 1)) vs m))"
    if "distinct (map fst m)" for m :: "('a \<times> nat) list"
    using that by (induction vs arbitrary: m) (simp_all add: amap_set_distinct)
  then show ?thesis
    by (simp add: countMapFrom_def)
qed

lemma consistent_new: "consistent new_TfIdfCalculator"
  by (simp add: consistent_def new_TfIdfCalculator_def stored_chunks_def term_count_def occ_of_def)

lemma consistent_deleteDocument:
  assumes "consistent c"
  shows "consistent (deleteDocument c k)"
proof (cases "map_of (documents c) k")
  case None
  with assms show ?thesis by (simp add: deleteDocument_def)
next
  case (Some cs)
  from assms have d: "distinct (map fst (documents c))"
    by (simp add: consistent_def)
  from amap_delete_split [OF d Some] obtain xs ys where
    m: "documents c = xs @ (k, cs) # ys" and m': "amap_delete (documents c) k = xs @ ys"
    by blast
  let ?rest = "concat (map snd xs) @ concat (map snd ys)"
  have all: "stored_chunks c = concat (map snd xs) @ cs @ concat (map snd ys)"
    by (simp add: stored_chunks_def m)
  have wf: "list_all (\<lambda>ch. distinct (map fst (tf ch))) cs"
    "list_all (\<lambda>ch. distinct (map fst (tf ch))) ?rest"
    using assms by (simp_all add: consistent_def all)
  have occ: "chunkOccurrences c = (\<lambda>t. occ_of (term_count ?rest t + term_count cs t))"
    using assms by (simp add: consistent_def all term_count_append add.commute add.left_commute)
  have "fold (\<lambda>chunk occ. fold forget_term (map fst (tf chunk)) occ) cs (chunkOccurrences c)
          = (\<lambda>t. occ_of (term_count ?rest t + term_count cs t - term_count cs t))"
    by (rule fold_forget_chunks [OF wf(1) occ])
  then have occ': "chunkOccurrences (deleteDocument c k) = (\<lambda>t. occ_of (term_count ?rest t))"
    by (simp add: deleteDocument_def Some)
  have docs': "documents (deleteDocument c k) = xs @ ys"
    by (simp add: deleteDocument_def Some m')
  have count': "chunkCount (deleteDocument c k) = int (length ?rest)"
    using assms by (simp add: deleteDocument_def Some consistent_def all)
  have "distinct (map fst (xs @ ys))"
    using d by (simp add: m)
  with occ' docs' count' wf(2) show ?thesis
    by (simp add: consistent_def stored_chunks_def)
qed

lemma consistent_insertDocument:
  assumes "consistent c" and "key doc \<notin> fst ` set (documents c)"
  shows "consistent (insertDocument doc c)"
proof -
  let ?cs = "map (\<lambda>t. \<lparr>chunk_text = t, tf = termFrequencies t\<rparr>) (textChunks doc)"
  have wf: "list_all (\<lambda>ch. distinct (map fst (tf ch))) ?cs"
    by (simp add: list_all_iff termFrequencies_def distinct_termFrequencies_keys)
  have occ: "chunkOccurrences c = (\<lambda>t. occ_of (term_count (stored_chunks c) t))"
    using assms(1) by (simp add: consistent_def)
  have occ': "chunkOccurrences (insertDocument doc c)
      = (\<lambda>t. occ_of (term_count (stored_chunks c) t + term_count ?cs t))"
    using fold_count_chunks [OF wf occ] by (simp add: insertDocument_def Let_def)
  have docs': "documents (insertDocument doc c) = documents c @ [(key doc, ?cs)]"
    using assms(2) by (simp add: insertDocument_def Let_def amap_set_fresh)
  then have all': "stored_chunks (insertDocument doc c) = stored_chunks c @ ?cs"
    by (simp add: stored_chunks_def)
  have count': "chunkCount (insertDocument doc c) = int (length (stored_chunks c @ ?cs))"
    using assms(1) by (simp add: insertDocument_def Let_def consistent_def)
  have "distinct (map fst (documents c @ [(key doc, ?cs)]))"
    using assms by (simp add: consistent_def)
  with occ' docs' all' count' wf assms(1) show ?thesis
    by (simp add: consistent_def term_count_append)
qed

lemma insertDocument_keys:
  "fst ` set (documents (insertDocument doc c)) = insert (key doc) (fst ` set (documents c))"
proof -
  have "documents (insertDocument doc c)
      = amap_set (documents c) (key doc)
          (map (\<lambda>t. \<lparr>chunk_text = t, tf = termFrequencies t\<rparr>) (textChunks doc))"
    by (simp add: insertDocument_def Let_def)
  then show ?thesis
    by (simp only: amap_set_keys)
qed

lemma deleteDocument_keys:
  assumes "consistent c"
  shows "fst ` set (documents (deleteDocument c k)) = fst ` set (documents c) - {k}"
proof (cases "map_of (documents c) k")
  case None
  then have "k \<notin> fst ` set (documents c)"
    by (simp add: map_of_eq_None_iff)
  with None show ?thesis by (simp add: deleteDocument_def)
next
  case (Some cs)
  have "distinct (map fst (documents c))"
    using assms by (simp add: consistent_def)
  then have "fst ` set (amap_delete (documents c) k) = fst ` set (documents c) - {k}"
    by (rule amap_delete_key_set)
  then show ?thesis
    by (simp add: deleteDocument_def Some)
qed

lemma delete_batch:
  assumes "consistent c"
  shows "consistent (fold (\<lambda>doc c'. deleteDocument c' (key doc)) docs c) \<and>
         fst ` set (documents (fold (\<lambda>doc c'. deleteDocument c' (key doc)) docs c))
           = fst ` set (documents c) - key ` set docs"
  using assms
proof (induction docs arbitrary: c)
  case Nil
  then show ?case by simp
next
  case (Cons d docs)
  have c1: "consistent (deleteDocument c (key d))"
    using Cons.prems by (rule consistent_deleteDocument)
  from Cons.IH [OF c1] deleteDocument_keys [OF Cons.prems, of "key d"] show ?case
    by auto
qed

lemma insert_batch:
  assumes "consistent c" and "distinct (map key docs)" and "key ` set docs \<inter> fst ` set (documents c) = {}"
  shows "consistent (fold insertDocument docs c) \<and>
         fst ` set (documents (fold insertDocument docs c)) = fst ` set (documents c) \<union> key ` set docs"
  using assms
proof (induction docs arbitrary: c)
  case Nil
  then show ?case by simp
next
  case (Cons d docs)
  have fresh: "key d \<notin> fst ` set (documents c)"
    using Cons.prems(3) by auto
  have c1: "consistent (insertDocument d c)"
    using Cons.prems(1) fresh by (rule consistent_insertDocument)
  have "key ` set docs \<inter> fst ` set (documents (insertDocument d c)) = {}"
    using Cons.prems(2,3) by (auto simp: insertDocument_keys)
  from Cons.IH [OF c1 _ this] Cons.prems(2) show ?case
    by (auto simp: insertDocument_keys)
qed

text \<open>
  A batch whose keys are pairwise distinct keeps the calculator consistent, and so does every
  \<open>deleteDocument\<close>.
\<close>

lemma consistent_updateDocuments:
  assumes "consistent c" and "distinct (map key docs)"
  shows "consistent (updateDocuments c docs)"
proof -
  let ?c1 = "fold (\<lambda>doc c'. deleteDocument c' (key doc)) docs c"
  from delete_batch [OF assms(1), of docs] have c1: "consistent ?c1"
    and keys: "fst ` set (documents ?c1) = fst ` set (documents c) - key ` set docs"
    by auto
  have "key ` set docs \<inter> fst ` set (documents ?c1) = {}"
    using keys by auto
  from insert_batch [OF c1 assms(2) this] show ?thesis
    by (simp add: updateDocuments_def)
qed

text \<open>In a consistent calculator the chunk count is the number of stored chunks, and a term has
  a counter exactly when some stored chunk contains it.\<close>

lemma consistent_counts:
  assumes "consistent c"
  shows "chunkCount c = (\<Sum>(k, cs) \<leftarrow> documents c. int (length cs)) \<and>
         (chunkOccurrences c t = None \<longleftrightarrow> (\<forall>ch \<in> set (stored_chunks c). t \<notin> fst ` set (tf ch)))"
proof -
  have "int (length (concat (map snd m))) = (\<Sum>(k, cs) \<leftarrow> m. int (length cs))"
    for m :: "(string \<times> DocumentChunkEntry list) list"
    by (induction m) auto
  moreover have "term_count cs t = 0 \<longleftrightarrow> (\<forall>ch \<in> set cs. t \<notin> fst ` set (tf ch))" for cs
    by (auto simp: term_count_def filter_empty_conv)
  ultimately show ?thesis
    using assms by (simp add: consistent_def stored_chunks_def occ_of_def)
qed

text \<open>Deleting every key of a consistent calculator empties the counters.\<close>

lemma delete_every_key:
  assumes "consistent c" and "fst ` set (documents c) \<subseteq> set ks"
  shows "chunkCount (fold (\<lambda>k c'. deleteDocument c' k) ks c) = 0 \<and>
         chunkOccurrences (fold (\<lambda>k c'. deleteDocument c' k) ks c) = Map.empty \<and>
         documents (fold (\<lambda>k c'. deleteDocument c' k) ks c) = []"
proof -
  let ?c' = "fold (\<lambda>k c'. deleteDocument c' k) ks c"
  have "consistent (fold (\<lambda>k c'. deleteDocument c' k) ks c) \<and>
        fst ` set (documents (fold (\<lambda>k c'. deleteDocument c' k) ks c)) = fst ` set (documents c) - set ks"
    using assms(1)
  proof (induction ks arbitrary: c)
    case Nil
    then show ?case by simp
  next
    case (Cons k ks)
    have c1: "consistent (deleteDocument c k)"
      using Cons.prems by (rule consistent_deleteDocument)
    from Cons.IH [OF c1] deleteDocument_keys [OF Cons.prems, of k] show ?case
      by auto
  qed
  with assms(2) have c': "consistent ?c'" and "fst ` set (documents ?c') = {}"
    by auto
  then have "documents ?c' = []"
    by simp
  with c' show ?thesis
    by (simp add: consistent_def stored_chunks_def term_count_def occ_of_def)
qed

subsection \<open>One entry per chunk\<close>

lemma score_documents_entries:
  "score_documents c e False docs acc =
     acc @ concat (map (\<lambda>(k, cs).
              map (\<lambda>chunk. \<lparr>tfidf_key = k, tfidf_score = computeSimilarityScore c chunk e\<rparr>)
                (filter (\<lambda>chunk. computeSimilarityScore c chunk e > 0) cs)) docs)"
  by (induction docs arbitrary: acc) auto

text \<open>Without cancellation the result of \<open>calculateScores\<close> lists, document by document, one
  entry for every chunk whose score is positive.\<close>

lemma calculateScores_entries:
  "calculateScores c q False =
     concat (map (\<lambda>(k, cs).
        map (\<lambda>chunk. \<lparr>tfidf_key = k, tfidf_score = computeSimilarityScore c chunk (computeEmbedding c q)\<rparr>)
          (filter (\<lambda>chunk. computeSimilarityScore c chunk (computeEmbedding c q) > 0) cs))
        (documents c))"
  by (simp add: calculateScores_def score_documents_entries)

section \<open>Properties of the fixed-size chunker\<close>

subsection \<open>Progress of the fixed-size loop\<close>

lemma lastIndexOf_cases:
  "lastIndexOf s p = -1 \<or> (0 \<le> lastIndexOf s p \<and> lastIndexOf s p + int (length p) \<le> int (length s))"
proof (cases "filter (\<lambda>i. take (length p) (drop i s) = p) (rev [0..<Suc (length s)])")
  case Nil
  then show ?thesis by (simp add: lastIndexOf_def)
next
  case (Cons i rest)
  then have "i \<in> set (filter (\<lambda>i. take (length p) (drop i s) = p) (rev [0..<Suc (length s)]))"
    by simp
  then have i: "i \<le> length s" and t: "take (length p) (drop i s) = p"
    by (auto simp del: upt_Suc)
  have "length p = length (take (length p) (drop i s))"
    using t by simp
  then have "length p \<le> length s - i"
    by simp
  with i Cons show ?thesis
    by (simp add: lastIndexOf_def)
qed

lemma length_substring:
  assumes "0 \<le> a" "a \<le> b" "b \<le> int (length s)"
  shows "int (length (substring s a b)) = b - a"
proof -
  have "substring s a b = take (nat (b - a)) (drop (nat a) s)"
    using assms by (simp add: substring_def Let_def min_def max_def)
  moreover have "nat (b - a) \<le> length s - nat a"
    using assms by linarith
  ultimately show ?thesis
    using assms by (simp add: min_def)
qed

lemma find_break_bounds:
  assumes "0 \<le> cur" "0 < mn" "cur + mn \<le> e" "e \<le> int (length content)"
  shows "find_break content cur mn e bps = e \<or>
         (cur + mn < find_break content cur mn e bps \<and> find_break content cur mn e bps \<le> int (length content))"
proof (induction bps)
  case Nil
  then show ?case by simp
next
  case (Cons bp bps)
  let ?ss = "max (e - 100) (cur + mn)"
  let ?se = "min (e + 100) (int (length content))"
  let ?txt = "substring content ?ss ?se"
  let ?i = "lastIndexOf ?txt bp"
  have ss: "0 \<le> ?ss" "?ss \<le> ?se" "?se \<le> int (length content)"
    using assms by auto
  have len: "int (length ?txt) = ?se - ?ss"
    using ss by (rule length_substring)
  show ?case
  proof (cases "?i \<noteq> -1 \<and> ?ss + ?i > cur + mn")
    case True
    then have "0 \<le> ?i \<and> ?i + int (length bp) \<le> int (length ?txt)"
      using lastIndexOf_cases [of ?txt bp] by auto
    then have "?ss + ?i + int (length bp) \<le> int (length content)" "cur + mn < ?ss + ?i + int (length bp)"
      using len ss(3) True by linarith+
    moreover have "find_break content cur mn e (bp # bps) = ?ss + ?i + int (length bp)"
      using True by (simp add: Let_def)
    ultimately show ?thesis by simp
  next
    case False
    then have "find_break content cur mn e (bp # bps) = find_break content cur mn e bps"
      by (auto simp: Let_def)
    with Cons show ?thesis by simp
  qed
qed

lemma chunk_end_bounds:
  assumes "0 \<le> cur" "cur < int (length content)" "0 < minChunk_of opts" "minChunk_of opts \<le> maxChunkSize opts"
  shows "cur < chunk_end opts content cur \<and> chunk_end opts content cur \<le> int (length content) \<and>
         (chunk_end opts content cur < int (length content) \<longrightarrow> cur + minChunk_of opts \<le> chunk_end opts content cur)"
proof -
  let ?e = "min (cur + maxChunkSize opts) (int (length content))"
  show ?thesis
  proof (cases "?e < int (length content)")
    case True
    then have e: "?e = cur + maxChunkSize opts" by simp
    have "find_break content cur (minChunk_of opts) ?e breakpoints = ?e \<or>
         (cur + minChunk_of opts < find_break content cur (minChunk_of opts) ?e breakpoints \<and>
          find_break content cur (minChunk_of opts) ?e breakpoints \<le> int (length content))"
      using assms True by (intro find_break_bounds) auto
    moreover have "chunk_end opts content cur = find_break content cur (minChunk_of opts) ?e breakpoints"
      unfolding chunk_end_def Let_def using True by (simp only: if_True)
    ultimately show ?thesis using assms e True by auto
  next
    case False
    then have e: "?e = int (length content)"
      by linarith
    have "chunk_end opts content cur = int (length content)"
      unfolding chunk_end_def Let_def using False e by simp
    with assms show ?thesis by simp
  qed
qed

text \<open>With a positive overlap the loop never returns once it is entered.\<close>

lemma fixed_loop_never_returns:
  assumes "0 < overlap_of opts" "overlap_of opts < minChunk_of opts" "minChunk_of opts \<le> maxChunkSize opts"
    and "maxChunkSize opts < int (length content)" "0 \<le> cur" "cur < int (length content)"
  shows "fixed_loop opts content md False cur i cs = None"
proof -
  define Q where "Q o' c' f' p' \<longleftrightarrow>
      o' = opts \<and> c' = content \<and> \<not> f' \<and> 0 \<le> p' \<and> p' < int (length content)" for o' c' f' p'
  have nr: "\<not> Q o' c' f' p'"
    if "fixed_loop o' c' m' f' p' i' cs' = Some y" for o' c' m' f' p' i' cs' y
  proof (rule fixed_loop.raw_induct
      [where P = "\<lambda>o' c' m' f' p' i' cs' y. \<not> Q o' c' f' p'", OF _ that], goal_cases)
    case (1 loop o' c' m' f' p' i' cs' y)
    show ?case
    proof (rule notI)
      assume "Q o' c' f' p'"
      then have inv: "o' = opts \<and> c' = content \<and> \<not> f' \<and> 0 \<le> p' \<and> p' < int (length content)"
        by (simp add: Q_def)
      let ?e = "chunk_end opts content p'"
      have b: "p' < ?e \<and> ?e \<le> int (length content) \<and>
          (?e < int (length content) \<longrightarrow> p' + minChunk_of opts \<le> ?e)"
        using inv assms by (intro chunk_end_bounds) auto
      have next_pos: "0 \<le> ?e - overlap_of opts \<and> ?e - overlap_of opts < int (length content)"
      proof (cases "?e < int (length content)")
        case True
        with b assms inv show ?thesis by linarith
      next
        case False
        with b have "?e = int (length content)" by simp
        then show ?thesis using assms by linarith
      qed
      obtain ch where "loop opts content m' False (?e - overlap_of opts) (i' + 1) (cs' @ [ch]) = Some y"
        using 1(2) inv by (simp add: Let_def)
      from 1(1) [OF this] next_pos show False by (simp add: Q_def)
    qed
  qed
  have "Q opts content False cur"
    using assms by (simp add: Q_def)
  then have "fixed_loop opts content md False cur i cs \<noteq> Some y" for y
    using nr by blast
  then show ?thesis
    by (cases "fixed_loop opts content md False cur i cs") auto
qed

text \<open>With overlap 0 the loop returns from every position.\<close>

lemma fixed_loop_returns:
  assumes "overlap_of opts = 0" "0 < minChunk_of opts" "minChunk_of opts \<le> maxChunkSize opts"
    and "0 \<le> cur"
  shows "\<exists>r. fixed_loop opts content md c cur i cs = Some r"
  using assms(4)
proof (induction "nat (int (length content) - cur)" arbitrary: cur i cs rule: less_induct)
  case less
  show ?case
  proof (cases "cur < int (length content) \<and> \<not> c")
    case True
    let ?e = "chunk_end opts content cur"
    have b: "cur < ?e"
      using True less.prems assms(2,3) chunk_end_bounds [of cur content opts] by simp
    then have "nat (int (length content) - ?e) < nat (int (length content) - cur)" "0 \<le> ?e"
      using True less.prems by linarith+
    from less.hyps [OF this] obtain r where
      "fixed_loop opts content md c ?e (i + 1)
         (cs @ [\<lparr>chunk_id = generateChunkId (substring content cur ?e) i md,
                  chunk_content = substring content cur ?e,
                  chunk_metadata =
                    spread [(''startLine'', VNum (getLineNumberAtOffset content cur)),
                            (''endLine'', VNum (getLineNumberAtOffset content ?e))] md\<rparr>]) = Some r"
      by blast
    then show ?thesis
      using True by (subst fixed_loop.simps) (simp add: Let_def assms(1))
  next
    case False
    then show ?thesis
      by (subst fixed_loop.simps) auto
  qed
qed

lemma FixedSize_chunk_returns:
  assumes "overlap_of opts = 0" "0 < minChunk_of opts" "minChunk_of opts \<le> maxChunkSize opts"
  shows "\<exists>r. FixedSize_chunk opts content md c = Some r"
  using fixed_loop_returns [OF assms, of 0 content md c 0 "[]"]
  by (cases c) (simp_all add: FixedSize_chunk_def)

lemma FixedSize_chunk_never_returns:
  assumes "0 < overlap_of opts" "overlap_of opts < minChunk_of opts" "minChunk_of opts \<le> maxChunkSize opts"
    and "maxChunkSize opts < int (length content)"
  shows "FixedSize_chunk opts content md False = None"
proof -
  have "0 < int (length content)"
    using assms by linarith
  then have "fixed_loop opts content md False 0 0 [] = None"
    using assms by (intro fixed_loop_never_returns) auto
  then show ?thesis
    using assms(4) by (simp add: FixedSize_chunk_def)
qed

text \<open>
  C9. Under the recommended constraint \<open>0 \<le> overlap < minChunkSize \<le> maxChunkSize\<close> the loop of
  \<open>FixedSizeChunkingStrategy.chunk\<close> makes progress only until a chunk ends at the end of the
  content: there \<open>currentPosition\<close> becomes \<open>content.length - overlap\<close>, which is still inside the
  content when \<open>overlap > 0\<close>, and every later iteration ends at the same place. With
  \<open>maxChunkSize = 10\<close>, \<open>minChunkSize = 5\<close>, \<open>overlap = 4\<close> and a content of eleven characters the
  call does not return.
\<close>

theorem FixedSize_chunk_overlap_diverges:
  "FixedSize_chunk \<lparr>maxChunkSize = 10, minChunkSize = Some 5, overlap = Some 4\<rparr> ''aaaaaaaaaaa'' [] False
     = None"
  by (rule FixedSize_chunk_never_returns) (simp_all add: overlap_of_def minChunk_of_def)

section \<open>Properties of the prompt builder\<close>

subsection \<open>Models without a system role\<close>

lemma replace_query: "replace ''{{query}}'' ''{{query}}'' ''q'' = ''q''"
  by (simp add: replace_def indexOf_def)

lemma replace_context_absent: "replace ''q'' ''{{context}}'' [] = ''q''"
  by (simp add: replace_def indexOf_def)

lemma estimate_nlnlq: "estimateTokens [newline, newline, CHR ''q''] = 3"
  by (simp add: estimateTokens_def is_space_def newline_def)

text \<open>
  C4. The comment in \<open>buildPrompt\<close> says "If system messages aren't supported, prepend it to
  the user message", but the text it prepends is the variable \<open>systemMessage\<close>, which is
  \<open>undefined\<close> exactly when system messages are not supported. With the default template and
  \<open>supportsSystemMessage = false\<close> the result has no system message and the user message is
  two line feeds followed by the query: the template's system text appears nowhere.
\<close>

theorem buildPrompt_drops_system_text:
  "PromptBuilder_buildPrompt defaultTemplate no_system_context =
     \<lparr>systemMessage = None, userMessage = [newline, newline] @ ''q'',
      includedSnippets = 0, totalSnippets = 0, estimatedTokens = 3\<rparr>"
  by (simp add: PromptBuilder_buildPrompt_def no_system_context_def defaultTemplate_def
      calculateSnippetsToInclude_def or_default_def replace_query replace_context_absent
      estimate_nlnlq Let_def)

text \<open>For every template and every context without a system role the user message starts with
  the two line feeds, whatever the template's system text is.\<close>

lemma buildPrompt_without_system_role:
  assumes "\<forall>m. modelCapabilities c = Some m \<longrightarrow> \<not> supportsSystemMessage m"
  shows "systemMessage (PromptBuilder_buildPrompt t c) = None \<and>
         take 2 (userMessage (PromptBuilder_buildPrompt t c)) = [newline, newline]"
  using assms by (simp add: PromptBuilder_buildPrompt_def Let_def or_default_def split: option.splits)

section \<open>Properties of the orchestrator and of search\<close>

subsection \<open>A small orchestrator\<close>

text \<open>The chunk of the file \<open>a.ts\<close> with content \<open>hello\<close>, and the orchestrator after
  indexing that file.\<close>

lemma file_metadata_demo: "file_metadata ''a.ts'' ''2024-01-01T00:00:00.000Z'' = demo_metadata"
  by (simp add: file_metadata_def last_part_def getLanguageFromExtension_def extensionMap_def
      toLowerCase_def to_lower_def is_upper_def demo_metadata_def Let_def)

lemma semanticUnits_hello: "semanticUnits ''hello'' = [''hello'']"
  by (simp add: semanticUnits_def is_space_def is_terminator_def)

lemma hash_hello: "nat \<bar>sint (content_hash ''hello'')\<bar> = 99162322"
  by (simp add: content_hash_def)

lemma hex_hello: "nat_to_string 16 99162322 = ''5e918d2''"
  by (simp add: digit_char_def)

lemma generateChunkId_demo: "generateChunkId ''hello'' 0 demo_metadata = ''chunk-a_ts-0-5e918d2''"
  by (simp add: generateChunkId_def hash_hello hex_hello digit_char_def meta_string_def
      demo_metadata_def is_letter_def is_upper_def is_lower_def is_digit_def Let_def)

lemma spread_demo:
  "spread [(''startLine'', VNum 0), (''endLine'', VNum 0)] demo_metadata =
     (''startLine'', VNum 0) # (''endLine'', VNum 0) # demo_metadata"
  by (simp add: spread_def demo_metadata_def)

lemma lines_hello: "getLineNumberAtOffset ''hello'' 5 = 0"
  by (simp add: getLineNumberAtOffset_def slice0_def newline_def)

lemma Semantic_chunk_demo:
  "Semantic_chunk default_ChunkingOptions ''hello'' demo_metadata False = [demo_chunk]"
  by (simp add: Semantic_chunk_def semanticUnits_hello semantic_step_def semantic_chunk_of_def
      generateChunkId_demo spread_demo lines_hello default_ChunkingOptions_def demo_chunk_def Let_def)

lemma indexFile_demo:
  "indexFile demo_indexing ''a.ts'' ''hello'' no_indexing_options False ''2024-01-01T00:00:00.000Z''
     = Some (Inr [demo_chunk], demo_indexed)"
  by (simp add: indexFile_def file_metadata_demo select_strategy_def no_indexing_options_def
      demo_indexing_def new_VoidIndexing_def Semantic_chunk_demo provider_of_def or_default_def
      service_computeEmbeddings_def axis_provider_def first_embedding_def storeDocument_def
      demo_chunk_def demo_indexed_def Let_def)

lemma cosine_same_axis: "cosineSimilarity (Some [1, 0]) (Some [1, 0]) = Inr 1"
  by (simp add: cosineSimilarity_def)

lemma cosine_other_axis: "cosineSimilarity (Some [1, 0]) (Some [0, 1]) = Inr 0"
  by (simp add: cosineSimilarity_def)

text \<open>
  C1. \<open>indexFile\<close> writes the chunk contents and embeddings to the storage adapter
  (\<open>this.storage.storeDocument\<close>), while \<open>search\<close> scores the \<open>documents\<close> map of the search
  engine, which no operation of the orchestrator ever fills. On a fresh orchestrator with the
  default (semantic) strategy, indexing \<open>a.ts\<close> with content \<open>hello\<close> stores one chunk whose
  embedding equals the embedding of the query \<open>hello\<close> (cosine similarity 1), and the following
  \<open>search\<close> for \<open>hello\<close> returns nothing, with the default options and with any threshold.
\<close>

theorem search_misses_indexed_chunk:
  "indexFile demo_indexing ''a.ts'' ''hello'' no_indexing_options False ''2024-01-01T00:00:00.000Z''
     = Some (Inr [demo_chunk], demo_indexed) \<and>
   map (\<lambda>(i, d). (i, stored_content d, stored_embedding d)) (storage demo_indexed)
     = [(''chunk-a_ts-0-5e918d2'', ''hello'', Some [1, 0])] \<and>
   service_computeEmbeddings (providers demo_indexed) (defaultProviderId demo_indexed) [''hello''] False
     = Inr [[1, 0]] \<and>
   cosineSimilarity (Some [1, 0]) (Some [1, 0]) = Inr 1 \<and>
   search demo_indexed ''hello'' no_options False = Inr [] \<and>
   search demo_indexed ''hello'' (no_options\<lparr>threshold := Some (-1)\<rparr>) False = Inr []"
  by (simp add: indexFile_demo cosine_same_axis)
     (simp add: demo_indexed_def demo_indexing_def new_VoidIndexing_def search_def engine_search_def
        service_computeEmbeddings_def axis_provider_def no_options_def slice0_def)

subsection \<open>What indexing changes and what search reads\<close>

lemma store_chunks_engine:
  "store_chunks s pid cs = (e, s') \<Longrightarrow> semanticSearch s' = semanticSearch s \<and> providers s' = providers s"
  by (induction cs arbitrary: s) (auto split: sum.splits)

lemma indexFile_keeps_engine:
  assumes "indexFile s filePath content options cancelled now = Some (r, s')"
  shows "semanticSearch s' = semanticSearch s"
  using assms
  by (auto simp: indexFile_def Let_def split: if_splits option.splits prod.splits dest: store_chunks_engine)

lemma indexContent_keeps_engine:
  assumes "indexContent s content md options cancelled = Some (r, s')"
  shows "semanticSearch s' = semanticSearch s"
  using assms
  by (auto simp: indexContent_def split: if_splits option.splits list.splits sum.splits)

text \<open>No indexing call touches the engine's documents, so after any number of \<open>indexFile\<close> and
  \<open>indexContent\<close> calls on a fresh orchestrator, \<open>search\<close> returns the empty list or raises.\<close>

lemma search_empty_engine:
  assumes "semanticSearch s = []"
  shows "search s q options cancelled = Inr [] \<or>
         search s q options cancelled = Inl (NoSuchProvider (defaultProviderId s))"
  using assms
  by (auto simp: search_def engine_search_def service_computeEmbeddings_def slice0_def Let_def
      split: option.splits)

subsection \<open>Search without options\<close>

lemma slice0_take: "0 \<le> k \<Longrightarrow> slice0 xs k = take (nat k) xs"
  by (simp add: slice0_def)

lemma sorted_by_score:
  "sorted_wrt (\<lambda>a b. f b \<le> (f a :: real)) (sort_key (\<lambda>r. - f r) xs)"
proof -
  have "sorted (map (\<lambda>r. - f r) (sort_key (\<lambda>r. - f r) xs))"
    by (rule sorted_sort_key)
  then show ?thesis
    by (simp add: sorted_map sorted_wrt_iff_nth_less)
qed

lemma sorted_wrt_take_score:
  "sorted_wrt P xs \<Longrightarrow> sorted_wrt P (take n xs)"
  by (metis append_take_drop_id sorted_wrt_append)

text \<open>
  C5 (as amended). When \<open>search\<close> is called with no options, the defaults \<open>topK = 5\<close> and
  \<open>threshold = 0.0\<close> apply, in the search engine and through the orchestrator, which passes
  the options on as they are: a call that returns yields at most 5 results, none with a
  similarity score below 0, sorted by descending similarity.
\<close>

theorem search_default_options:
  "(engine_search ps docs q pid no_options cancelled = Inr rs \<longrightarrow>
      length rs \<le> 5 \<and> (\<forall>r \<in> set rs. 0 \<le> result_score r) \<and>
      sorted_wrt (\<lambda>a b. result_score b \<le> result_score a) rs) \<and>
   (search s q no_options cancelled = Inr srs \<longrightarrow>
      length srs \<le> 5 \<and> (\<forall>r \<in> set srs. 0 \<le> sr_score r) \<and>
      sorted_wrt (\<lambda>a b. sr_score b \<le> sr_score a) srs)"
proof -
  have engine: "length rs \<le> 5 \<and> (\<forall>r \<in> set rs. 0 \<le> result_score r) \<and>
      sorted_wrt (\<lambda>a b. result_score b \<le> result_score a) rs"
    if "engine_search ps docs q pid no_options cancelled = Inr rs" for ps docs pid rs
  proof (cases cancelled)
    case True
    with that show ?thesis by (simp add: engine_search_def)
  next
    case False
    with that obtain scored where
      rs: "rs = take 5 (sort_key (\<lambda>r. - result_score r) (filter (\<lambda>r. 0 \<le> result_score r) scored))"
      by (auto simp: engine_search_def no_options_def slice0_take Let_def split: sum.splits)
    have "set rs \<subseteq> set (filter (\<lambda>r. 0 \<le> result_score r) scored)"
      unfolding rs by (metis set_sort set_take_subset)
    moreover have "sorted_wrt (\<lambda>a b. result_score b \<le> result_score a) rs"
      unfolding rs by (intro sorted_wrt_take_score sorted_by_score)
    moreover have "length rs \<le> 5"
      unfolding rs by simp
    ultimately show ?thesis by auto
  qed
  have facade: "length srs \<le> 5 \<and> (\<forall>r \<in> set srs. 0 \<le> sr_score r) \<and>
      sorted_wrt (\<lambda>a b. sr_score b \<le> sr_score a) srs"
    if "search s q no_options cancelled = Inr srs"
  proof (cases cancelled)
    case True
    with that show ?thesis by (simp add: search_def)
  next
    case False
    with that obtain rs where
      e: "engine_search (providers s) (semanticSearch s) q (defaultProviderId s) no_options cancelled = Inr rs"
      and srs: "srs = map (\<lambda>r. \<lparr>sr_id = result_id r, sr_content = result_content r,
                                sr_score = result_score r,
                                sr_metadata = (case result_metadata r of None \<Rightarrow> [] | Some m \<Rightarrow> m)\<rparr>) rs"
      by (auto simp: search_def split: sum.splits)
    from engine [OF e] show ?thesis
      unfolding srs by (simp add: sorted_wrt_map)
  qed
  from engine facade show ?thesis by blast
qed

lemma engine_search_other:
  "engine_search [''default'' \<mapsto> axis_provider] other_document ''hello'' ''default'' no_options False
     = Inr [\<lparr>result_id = ''d'', result_score = 0, result_content = ''other'', result_metadata = None\<rparr>]"
  by (simp add: engine_search_def service_computeEmbeddings_def axis_provider_def first_embedding_def
      other_document_def cosine_other_axis no_options_def slice0_def)

text \<open>Witness for C5: a search without options on the engine with one document, and on the
  orchestrator after indexing.\<close>

theorem search_default_options_witness:
  "addDocument [''default'' \<mapsto> axis_provider] [] ''d'' ''other'' ''default'' None False = Inr other_document \<and>
   engine_search [''default'' \<mapsto> axis_provider] other_document ''hello'' ''default'' no_options False
     = Inr [\<lparr>result_id = ''d'', result_score = 0, result_content = ''other'', result_metadata = None\<rparr>] \<and>
   length [\<lparr>result_id = ''d'', result_score = 0, result_content = ''other'', result_metadata = None\<rparr>] \<le> 5 \<and>
   0 \<le> result_score \<lparr>result_id = ''d'', result_score = 0, result_content = ''other'', result_metadata = None\<rparr> \<and>
   search demo_indexed ''hello'' no_options False = Inr [] \<and> length ([] :: SearchResult list) \<le> 5"
proof -
  let ?r = "\<lparr>result_id = ''d'', result_score = 0, result_content = ''other'', result_metadata = None\<rparr>"
  have add: "addDocument [''default'' \<mapsto> axis_provider] [] ''d'' ''other'' ''default'' None False
      = Inr other_document"
    by (simp add: addDocument_def service_computeEmbeddings_def axis_provider_def first_embedding_def
        other_document_def)
  have facade: "search demo_indexed ''hello'' no_options False = Inr []"
    by (simp add: demo_indexed_def demo_indexing_def new_VoidIndexing_def search_def engine_search_def
        service_computeEmbeddings_def axis_provider_def no_options_def slice0_def)
  note w = search_default_options [of "[''default'' \<mapsto> axis_provider]" other_document "''hello''"
      "''default''" False "[?r]" demo_indexed "[]"]
  have "length [?r] \<le> 5 \<and> (\<forall>r \<in> set [?r]. 0 \<le> result_score r)"
    using w engine_search_other by blast
  moreover have "length ([] :: SearchResult list) \<le> 5"
    using w facade by blast
  ultimately show ?thesis
    using add engine_search_other facade by simp
qed

text \<open>
  C5 (as stated) fails in the search engine: without options the document of similarity 0 is
  returned, below the threshold 0.7 of the claim.
\<close>

theorem search_default_threshold_counterexample:
  "engine_search [''default'' \<mapsto> axis_provider] other_document ''hello'' ''default'' no_options False
     = Inr [\<lparr>result_id = ''d'', result_score = 0, result_content = ''other'', result_metadata = None\<rparr>] \<and>
   result_score \<lparr>result_id = ''d'', result_score = 0, result_content = ''other'', result_metadata = None\<rparr>
     < 7 / 10"
  by (simp add: engine_search_def service_computeEmbeddings_def axis_provider_def first_embedding_def
      other_document_def cosine_other_axis no_options_def slice0_def)

subsection \<open>Cancelled tokens\<close>

text \<open>
  C7. Called with a token that is already cancelled, every operation returns its neutral result
  and raises nothing: \<open>calculateScores\<close>, \<open>indexFile\<close> and \<open>search\<close> return the empty array,
  \<open>indexContent\<close> returns \<open>null\<close>, \<open>buildPrompt\<close> returns the bare query with all three counters
  0; the orchestrator is left as it was. The same holds for the search engine, the embedding
  service, the fixed-size and semantic chunkers and the ranker.
\<close>

theorem cancelled_operations_return_neutral:
  "calculateScores calc q True = [] \<and>
   indexFile s filePath content ioptions True now = Some (Inr [], s) \<and>
   search s q soptions True = Inr [] \<and>
   indexContent s content md ioptions True = Some (Inr None, s) \<and>
   buildPrompt s q boptions True =
     Inr \<lparr>systemMessage = None, userMessage = q,
          includedSnippets = 0, totalSnippets = 0, estimatedTokens = 0\<rparr> \<and>
   engine_search ps docs q pid soptions True = Inr [] \<and>
   service_computeEmbeddings ps pid texts True = Inr [] \<and>
   FixedSize_chunk copts content md True = Some [] \<and>
   Semantic_chunk copts content md True = [] \<and>
   rankItems ropts items q scoreFn True = []"
  by (simp add: calculateScores_cancelled indexFile_def search_def indexContent_def buildPrompt_def
      empty_prompt_def engine_search_def service_computeEmbeddings_def FixedSize_chunk_def
      Semantic_chunk_def rankItems_def)

end
